theory Spec2Isabelle
  imports Complex_Main
begin

section \<open>Numbers, arrays and errors\<close>

text \<open>
  The development embeds \<^verbatim>\<open>src/schpf/scHPF_.py\<close>. A \<^verbatim>\<open>float64\<close> is idealised as a
  \<^typ>\<open>real\<close>: rounding and overflow are not represented. Where numpy divides by zero
  and the quotient decides control flow (the percent change of the loss, the estimates of
  the rate hyperparameters) the result, infinite or not a number, is made explicit;
  elsewhere a quotient by zero is outside the idealisation.

  A numpy array is its shape and its elements in row-major order.
\<close>

record ndarray =
  nd_shape :: "nat list"
  nd_data :: "real list"

text \<open>
  The exceptions of Python that the source can raise. \<open>Beyond_reals\<close> is none of them: it
  marks the one place where the code goes on computing with a hyperparameter that is
  infinite or not a number, which the real-valued arrays of this model cannot follow.
\<close>

datatype error =
    AssertionError
  | ValueError string
  | IndexError
  | ZeroDivisionError
  | AttributeError
  | OverflowError
  | Beyond_reals

text \<open>
  A \<^verbatim>\<open>float64\<close> that need not be finite, for the estimates of the rate
  hyperparameters. \<open>np_divide\<close> is \<^verbatim>\<open>x / y\<close> on two finite numpy floats, which does
  not raise when \<open>y\<close> is zero; \<open>scaled s x\<close> is \<^verbatim>\<open>s * x\<close> and \<open>divided x s\<close> is
  \<^verbatim>\<open>x / s\<close> for a finite \<open>s\<close>; \<open>exceeds x y\<close> is \<^verbatim>\<open>x > y\<close>, false whenever
  one side is not a number.
\<close>

datatype float64 = Num real | Plus_inf | Minus_inf | Not_a_number

definition np_divide :: "real \<Rightarrow> real \<Rightarrow> float64" where
  "np_divide x y =
     (if y \<noteq> 0 then Num (x / y)
      else if 0 < x then Plus_inf else if x < 0 then Minus_inf else Not_a_number)"

definition scaled :: "real \<Rightarrow> float64 \<Rightarrow> float64" where
  "scaled s x =
     (case x of
        Num r \<Rightarrow> Num (s * r)
      | Plus_inf \<Rightarrow> if 0 < s then Plus_inf else if s < 0 then Minus_inf else Not_a_number
      | Minus_inf \<Rightarrow> if 0 < s then Minus_inf else if s < 0 then Plus_inf else Not_a_number
      | Not_a_number \<Rightarrow> Not_a_number)"

definition divided :: "float64 \<Rightarrow> real \<Rightarrow> float64" where
  "divided x s =
     (case x of
        Num r \<Rightarrow> np_divide r s
      | Plus_inf \<Rightarrow> if s < 0 then Minus_inf else Plus_inf
      | Minus_inf \<Rightarrow> if s < 0 then Plus_inf else Minus_inf
      | Not_a_number \<Rightarrow> Not_a_number)"

definition exceeds :: "float64 \<Rightarrow> float64 \<Rightarrow> bool" where
  "exceeds x y =
     (case (x, y) of
        (Num a, Num b) \<Rightarrow> b < a
      | (Num a, Minus_inf) \<Rightarrow> True
      | (Plus_inf, Num b) \<Rightarrow> True
      | (Plus_inf, Minus_inf) \<Rightarrow> True
      | _ \<Rightarrow> False)"

text \<open>\<^verbatim>\<open>np.all(arr > 0)\<close>\<close>

definition all_positive :: "ndarray \<Rightarrow> bool" where
  "all_positive arr = list_all (\<lambda>x. 0 < x) (nd_data arr)"

text \<open>Elementwise quotient of two arrays of one shape (\<^verbatim>\<open>vi_shape / vi_rate\<close>).\<close>

definition nd_div :: "ndarray \<Rightarrow> ndarray \<Rightarrow> ndarray" where
  "nd_div x y = \<lparr>nd_shape = nd_shape x, nd_data = map2 (/) (nd_data x) (nd_data y)\<rparr>"

text \<open>Number of columns of a two-dimensional array, and its \<open>i\<close>-th row.\<close>

definition ncols :: "ndarray \<Rightarrow> nat" where
  "ncols arr = (case nd_shape arr of [n, k] \<Rightarrow> k | _ \<Rightarrow> 1)"

definition nrows :: "ndarray \<Rightarrow> nat" where
  "nrows arr = (case nd_shape arr of [] \<Rightarrow> 0 | n # _ \<Rightarrow> n)"

definition nd_row :: "ndarray \<Rightarrow> nat \<Rightarrow> real list" where
  "nd_row arr i = take (ncols arr) (drop (i * ncols arr) (nd_data arr))"

text \<open>\<^verbatim>\<open>arr.sum(1)\<close>: the sums of the rows, a one-dimensional array.\<close>

definition sum_axis1 :: "ndarray \<Rightarrow> ndarray" where
  "sum_axis1 arr =
     \<lparr>nd_shape = [nrows arr],
      nd_data = map (\<lambda>i. sum_list (nd_row arr i)) [0..<nrows arr]\<rparr>"

text \<open>\<^verbatim>\<open>s + arr\<close> for a scalar \<open>s\<close>, and \<^verbatim>\<open>arr[:] = s\<close>.\<close>

definition scalar_add :: "real \<Rightarrow> ndarray \<Rightarrow> ndarray" where
  "scalar_add s arr = arr\<lparr>nd_data := map (\<lambda>x. s + x) (nd_data arr)\<rparr>"

definition fill :: "ndarray \<Rightarrow> real \<Rightarrow> ndarray" where
  "fill arr s = arr\<lparr>nd_data := map (\<lambda>_. s) (nd_data arr)\<rparr>"

text \<open>
  \<^verbatim>\<open>xs[i]\<close> on a Python list: an index from \<open>0\<close> reads from the front, an index
  from \<open>-1\<close> down to \<open>- len(xs)\<close> reads from the back, and any other index raises.
\<close>

definition py_get :: "'a list \<Rightarrow> int \<Rightarrow> error + 'a" where
  "py_get xs i =
     (if 0 \<le> i \<and> i < int (length xs) then Inr (xs ! nat i)
      else if i < 0 \<and> - i \<le> int (length xs) then Inr (xs ! (length xs - nat (- i)))
      else Inl IndexError)"

section \<open>Gamma variational distributions (class \<^verbatim>\<open>HPF_Gamma\<close>)\<close>

record HPF_Gamma =
  vi_shape :: ndarray
  vi_rate :: ndarray
  dims :: "nat list"

text \<open>\<^verbatim>\<open>HPF_Gamma.__init__\<close>: three assertions, then the fields are stored.\<close>

definition HPF_Gamma_init :: "ndarray \<Rightarrow> ndarray \<Rightarrow> error + HPF_Gamma" where
  "HPF_Gamma_init vshape vrate =
     (if nd_shape vshape \<noteq> nd_shape vrate then Inl AssertionError
      else if \<not> all_positive vshape then Inl AssertionError
      else if \<not> all_positive vrate then Inl AssertionError
      else Inr \<lparr>vi_shape = vshape, vi_rate = vrate, dims = nd_shape vshape\<rparr>)"

text \<open>The property \<^verbatim>\<open>e_x\<close>.\<close>

definition e_x :: "HPF_Gamma \<Rightarrow> ndarray" where
  "e_x g = nd_div (vi_shape g) (vi_rate g)"

section \<open>Sparse observations and the library calls\<close>

text \<open>A \<^verbatim>\<open>scipy.sparse.coo_matrix\<close>: its shape and its triplets.\<close>

record coo_matrix =
  coo_shape :: "nat \<times> nat"
  coo_row :: "nat list"
  coo_col :: "nat list"
  coo_data :: "real list"

text \<open>
  What the source calls and does not define: numpy's random sampling, the log-gamma
  function of scipy, and the kernels of \<^verbatim>\<open>schpf.hpf_numba\<close> (imported with
  \<^verbatim>\<open>from schpf.hpf_numba import *\<close>), which are not part of the source file. They are
  parameters of the model: total, and without effect on their arguments. The random
  source is a state of type \<^typ>\<open>'r\<close> that every draw takes and returns. The name
  \<^verbatim>\<open>compute_pois_llh\<close> may be unbound (\<open>None\<close>): the source catches the
  \<^verbatim>\<open>NameError\<close>.
\<close>

record 'r externals =
  uniform :: "real \<Rightarrow> real \<Rightarrow> nat list \<Rightarrow> 'r \<Rightarrow> ndarray \<times> 'r"
  dirichlet :: "real list \<Rightarrow> nat \<Rightarrow> 'r \<Rightarrow> ndarray \<times> 'r"
  compute_Xphi_data ::
    "real list \<Rightarrow> nat list \<Rightarrow> nat list \<Rightarrow> ndarray \<Rightarrow> ndarray \<Rightarrow> ndarray \<Rightarrow> ndarray \<Rightarrow> ndarray"
  compute_loading_shape_update :: "ndarray \<Rightarrow> nat list \<Rightarrow> nat \<Rightarrow> real \<Rightarrow> ndarray"
  compute_loading_rate_update :: "ndarray \<Rightarrow> ndarray \<Rightarrow> ndarray \<Rightarrow> ndarray \<Rightarrow> ndarray"
  compute_pois_llh ::
    "(real list \<Rightarrow> nat list \<Rightarrow> nat list \<Rightarrow> ndarray \<Rightarrow> ndarray \<Rightarrow> ndarray \<Rightarrow> ndarray
        \<Rightarrow> real list) option"
  gammaln :: "real \<Rightarrow> real"

text \<open>
  \<^verbatim>\<open>HPF_Gamma.random_gamma_factory\<close>. The rate prior is b' or d' and may be an
  estimate that is not finite: \<^verbatim>\<open>np.random.uniform\<close> then raises
  \<^verbatim>\<open>OverflowError\<close> (its range \<^verbatim>\<open>high - low\<close> is not finite), after the shapes
  have been drawn.
\<close>

definition random_gamma_factory ::
  "'r externals \<Rightarrow> nat list \<Rightarrow> real \<Rightarrow> float64 \<Rightarrow> 'r \<Rightarrow> (error + HPF_Gamma) \<times> 'r" where
  "random_gamma_factory ext ds shape_prior rate_prior g =
     (case uniform ext (0.5 * shape_prior) (1.5 * shape_prior) ds g of (vshape, g1) \<Rightarrow>
      (case rate_prior of
         Num r \<Rightarrow>
           (case uniform ext (0.5 * r) (1.5 * r) ds g1 of (vrate, g2) \<Rightarrow>
              (HPF_Gamma_init vshape vrate, g2))
       | _ \<Rightarrow> (Inl OverflowError, g1)))"

section \<open>The estimator (class \<^verbatim>\<open>scHPF\<close>)\<close>

text \<open>
  The fields of an instance. The hyperparameters \<^verbatim>\<open>a\<close> and \<^verbatim>\<open>c\<close> are the fields
  \<open>hp_a\<close> and \<open>hp_c\<close>; \<open>None\<close> is Python's \<^verbatim>\<open>None\<close>.
\<close>

record scHPF =
  nfactors :: nat
  hp_a :: real
  ap :: real
  bp :: "real option"
  hp_c :: real
  cp :: real
  dp :: "real option"
  min_iter :: int
  max_iter :: int
  check_freq :: int
  epsilon :: real
  better_than_n_ago :: int
  xi :: "HPF_Gamma option"
  eta :: "HPF_Gamma option"
  theta :: "HPF_Gamma option"
  beta :: "HPF_Gamma option"
  loss :: "real list"

text \<open>
  \<^verbatim>\<open>scHPF.__init__\<close>. The parameters \<^verbatim>\<open>xi\<close>, \<^verbatim>\<open>theta\<close>, \<^verbatim>\<open>eta\<close>, \<^verbatim>\<open>beta\<close> and
  \<^verbatim>\<open>loss\<close> are accepted and not read.
\<close>

definition scHPF_init ::
  "nat \<Rightarrow> real \<Rightarrow> real \<Rightarrow> real option \<Rightarrow> real \<Rightarrow> real \<Rightarrow> real option \<Rightarrow> int \<Rightarrow> int \<Rightarrow> int \<Rightarrow> real
     \<Rightarrow> int \<Rightarrow> HPF_Gamma option \<Rightarrow> HPF_Gamma option \<Rightarrow> HPF_Gamma option \<Rightarrow> HPF_Gamma option
     \<Rightarrow> real list option \<Rightarrow> scHPF" where
  "scHPF_init nfactors0 a0 ap0 bp0 c0 cp0 dp0 min_iter0 max_iter0 check_freq0 epsilon0
      better_than_n_ago0 xi0 theta0 eta0 beta0 loss0 =
     \<lparr>nfactors = nfactors0, hp_a = a0, ap = ap0, bp = bp0, hp_c = c0, cp = cp0, dp = dp0,
      min_iter = min_iter0, max_iter = max_iter0, check_freq = check_freq0,
      epsilon = epsilon0, better_than_n_ago = better_than_n_ago0,
      xi = None, eta = None, theta = None, beta = None, loss = []\<rparr>"

text \<open>What the run prints.\<close>

datatype pct = Finite real | NonFinite

datatype event =
    Clipping_dp float64 float64
  | Iter_msg nat real pct
  | Converged_msg
  | Getting_worse_msg

subsection \<open>Setup\<close>

text \<open>
  \<^verbatim>\<open>X.sum(axis=axis)\<close>: for axis 1 the sum of every row, otherwise the sum of every
  column; then \<^verbatim>\<open>np.mean\<close>, \<^verbatim>\<open>np.var\<close> and the local function
  \<^verbatim>\<open>mean_var_ratio\<close> of \<^verbatim>\<open>_setup\<close>. Its quotient is infinite or not a number
  when the sums have variance zero, and not a number when there are no sums at all (the
  mean and the variance of an empty array are not numbers).
\<close>

definition axis_sum :: "coo_matrix \<Rightarrow> nat \<Rightarrow> real list" where
  "axis_sum X axis =
     (if axis = 1
      then map (\<lambda>i. sum_list (map snd (filter (\<lambda>p. fst p = i) (zip (coo_row X) (coo_data X)))))
             [0..<fst (coo_shape X)]
      else map (\<lambda>j. sum_list (map snd (filter (\<lambda>p. fst p = j) (zip (coo_col X) (coo_data X)))))
             [0..<snd (coo_shape X)])"

definition np_mean :: "real list \<Rightarrow> real" where
  "np_mean xs = sum_list xs / real (length xs)"

definition np_var :: "real list \<Rightarrow> real" where
  "np_var xs = np_mean (map (\<lambda>x. (x - np_mean xs)\<^sup>2) xs)"

definition mean_var_ratio :: "coo_matrix \<Rightarrow> nat \<Rightarrow> float64" where
  "mean_var_ratio X axis =
     (if axis_sum X axis = [] then Not_a_number
      else np_divide (np_mean (axis_sum X axis)) (np_var (axis_sum X axis)))"

definition msg_dp_none :: string where
  "msg_dp_none = ''dp is None and cannot  dp when freeze_genes is True.''"

definition msg_genes_unset :: string where
  "msg_genes_unset = ''To fit with frozen gene variational distributions ''
     @ ''(`freeze_genes`==True), eta and beta must be set to ''
     @ ''valid HPF_Gamma instances.''"

text \<open>\<^verbatim>\<open>if reinit or (blk is None): blk = HPF_Gamma.random_gamma_factory(...)\<close>\<close>

definition reinit_or_keep ::
  "'r externals \<Rightarrow> bool \<Rightarrow> HPF_Gamma option \<Rightarrow> nat list \<Rightarrow> real \<Rightarrow> float64 \<Rightarrow> 'r
     \<Rightarrow> (error + HPF_Gamma) \<times> 'r" where
  "reinit_or_keep ext reinit blk ds shape_prior rate_prior g =
     (case blk of
        None \<Rightarrow> random_gamma_factory ext ds shape_prior rate_prior g
      | Some b \<Rightarrow> if reinit then random_gamma_factory ext ds shape_prior rate_prior g
                  else (Inr b, g))"

text \<open>
  The values \<^verbatim>\<open>_setup\<close> returns: \<^verbatim>\<open>(bp, dp, xi, eta, theta, beta)\<close>.
\<close>

type_synonym setup_result =
  "float64 \<times> float64 \<times> HPF_Gamma \<times> HPF_Gamma \<times> HPF_Gamma \<times> HPF_Gamma"

text \<open>
  \<^verbatim>\<open>scHPF._setup\<close>. The result is what the call raises or returns, what it has printed
  and the random source it leaves. The instance is not written.
\<close>

definition scHPF_setup ::
  "'r externals \<Rightarrow> scHPF \<Rightarrow> coo_matrix \<Rightarrow> bool \<Rightarrow> bool \<Rightarrow> bool \<Rightarrow> 'r
     \<Rightarrow> (error + setup_result) \<times> event list \<times> 'r" where
  "scHPF_setup ext self X freeze_genes reinit clip g =
     (let ncells = fst (coo_shape X); ngenes = snd (coo_shape X);
          bp1 = (case bp self of None \<Rightarrow> scaled (ap self) (mean_var_ratio X 1)
                 | Some b \<Rightarrow> Num b)
      in
      if dp self = None \<and> freeze_genes then (Inl (ValueError msg_dp_none), [], g)
      else
        let est = scaled (cp self) (mean_var_ratio X 0);
            clipped = (dp self = None \<and> clip \<and> exceeds bp1 (scaled 1000 est));
            dp1 = (case dp self of Some d \<Rightarrow> Num d
                   | None \<Rightarrow> if clipped then divided bp1 1000 else est);
            out = (if clipped then [Clipping_dp est (divided bp1 1000)] else [])
        in
        (case reinit_or_keep ext reinit (xi self) [ncells] (ap self) bp1 g of
          (Inl e, g1) \<Rightarrow> (Inl e, out, g1)
        | (Inr xi1, g1) \<Rightarrow>
        (case reinit_or_keep ext reinit (theta self) [ncells, nfactors self] (hp_a self) bp1 g1 of
          (Inl e, g2) \<Rightarrow> (Inl e, out, g2)
        | (Inr theta1, g2) \<Rightarrow>
        if freeze_genes then
          (case (eta self, beta self) of
             (Some eta1, Some beta1) \<Rightarrow> (Inr (bp1, dp1, xi1, eta1, theta1, beta1), out, g2)
           | _ \<Rightarrow> (Inl (ValueError msg_genes_unset), out, g2))
        else
          (case reinit_or_keep ext reinit (eta self) [ngenes] (cp self) dp1 g2 of
            (Inl e, g3) \<Rightarrow> (Inl e, out, g3)
          | (Inr eta1, g3) \<Rightarrow>
          (case reinit_or_keep ext reinit (beta self) [ngenes, nfactors self] (hp_c self) dp1 g3 of
            (Inl e, g4) \<Rightarrow> (Inl e, out, g4)
          | (Inr beta1, g4) \<Rightarrow> (Inr (bp1, dp1, xi1, eta1, theta1, beta1), out, g4))))))"

subsection \<open>The scorer\<close>

text \<open>
  \<^verbatim>\<open>scHPF.pois_llh_pointwise\<close>. The arguments \<^verbatim>\<open>theta\<close> and \<^verbatim>\<open>beta\<close> default to the
  fields of the instance; a missing block has no attribute to read. With the kernel bound
  its result is returned; otherwise the numpy expressions of the \<^verbatim>\<open>except\<close> branch are
  evaluated, where an index beyond the rows of a block raises.
\<close>

definition pois_llh_pointwise ::
  "'r externals \<Rightarrow> scHPF \<Rightarrow> coo_matrix \<Rightarrow> HPF_Gamma option \<Rightarrow> HPF_Gamma option
     \<Rightarrow> error + real list" where
  "pois_llh_pointwise ext self X theta_arg beta_arg =
     (case (case theta_arg of None \<Rightarrow> theta self | Some th \<Rightarrow> Some th,
            case beta_arg of None \<Rightarrow> beta self | Some be \<Rightarrow> Some be) of
        (Some th, Some be) \<Rightarrow>
          (case compute_pois_llh ext of
             Some numba_llh \<Rightarrow>
               Inr (numba_llh (coo_data X) (coo_row X) (coo_col X)
                      (vi_shape th) (vi_rate th) (vi_shape be) (vi_rate be))
           | None \<Rightarrow>
               if list_all (\<lambda>i. i < nrows (e_x th)) (coo_row X)
                  \<and> list_all (\<lambda>j. j < nrows (e_x be)) (coo_col X)
               then
                 let e_rate = map2 (\<lambda>i j. sum_list (map2 (*) (nd_row (e_x th) i) (nd_row (e_x be) j)))
                                (coo_row X) (coo_col X)
                 in Inr (map2 (\<lambda>x r. x * ln r - r - gammaln ext (x + 1)) (coo_data X) e_rate)
               else Inl IndexError)
      | _ \<Rightarrow> Inl AttributeError)"

text \<open>\<^verbatim>\<open>scHPF.pois_llh\<close>\<close>

definition pois_llh ::
  "'r externals \<Rightarrow> scHPF \<Rightarrow> coo_matrix \<Rightarrow> HPF_Gamma option \<Rightarrow> HPF_Gamma option \<Rightarrow> error + real" where
  "pois_llh ext self X theta_arg beta_arg =
     (case pois_llh_pointwise ext self X theta_arg beta_arg of
        Inl e \<Rightarrow> Inl e
      | Inr llh \<Rightarrow> Inr (sum_list llh))"

text \<open>
  Modelled from the spec: the kernel \<^verbatim>\<open>compute_pois_llh\<close> of \<^verbatim>\<open>schpf.hpf_numba\<close>,
  which is not among the sources. For each observed nonzero entry the spec gives the
  pointwise Poisson log-likelihood value * log(rate) - rate - logGamma(value + 1), where
  rate is the dot product over the factors of the cell-loading and gene-loading
  expectations for the entry's row and column. \<open>spec_rate\<close> is that dot product for
  row \<open>i\<close> of the first block and row \<open>j\<close> of the second, both with \<open>K\<close> factors
  and an expectation that is shape over rate.
\<close>

definition spec_rate :: "HPF_Gamma \<Rightarrow> HPF_Gamma \<Rightarrow> nat \<Rightarrow> nat \<Rightarrow> nat \<Rightarrow> real" where
  "spec_rate th be K i j =
     (\<Sum>k<K. (nd_data (vi_shape th) ! (i * K + k) / nd_data (vi_rate th) ! (i * K + k))
            * (nd_data (vi_shape be) ! (j * K + k) / nd_data (vi_rate be) ! (j * K + k)))"

definition compute_pois_llh_spec ::
  "(real \<Rightarrow> real) \<Rightarrow> real list \<Rightarrow> nat list \<Rightarrow> nat list \<Rightarrow> ndarray \<Rightarrow> ndarray \<Rightarrow> ndarray
     \<Rightarrow> ndarray \<Rightarrow> real list" where
  "compute_pois_llh_spec lgamma xs rs cs ts tr bs br =
     map (\<lambda>q. let rate = spec_rate \<lparr>vi_shape = ts, vi_rate = tr, dims = nd_shape ts\<rparr>
                                     \<lparr>vi_shape = bs, vi_rate = br, dims = nd_shape bs\<rparr>
                                     (ncols ts) (rs ! q) (cs ! q)
               in xs ! q * ln rate - rate - lgamma (xs ! q + 1))
       [0..<length xs]"

subsection \<open>The convergence check\<close>

text \<open>
  \<^verbatim>\<open>100 * (curr - prev) / np.abs(prev)\<close>: numpy divides by zero without raising, and the
  quotient is infinite or not a number; its magnitude is then below no tolerance.
\<close>

definition pct_of :: "real \<Rightarrow> real \<Rightarrow> pct" where
  "pct_of cur prev = (if prev = 0 then NonFinite else Finite (100 * (cur - prev) / \<bar>prev\<bar>))"

definition small :: "real \<Rightarrow> pct \<Rightarrow> bool" where
  "small eps p = (case p of Finite x \<Rightarrow> \<bar>x\<bar> < eps | NonFinite \<Rightarrow> False)"

text \<open>How an iteration of the loop ends: it goes on, or it leaves the loop.\<close>

datatype signal = Continue | Converged | Getting_worse | Past_max_iter

text \<open>
  The body of \<^verbatim>\<open>if t % self.check_freq == 0:\<close> in \<^verbatim>\<open>_fit\<close>, after the loss
  \<open>cur\<close> (the local \<^verbatim>\<open>curr\<close>) has been computed, in its two parts. The first
  appends the loss to the history \<open>ls\<close> of the instance and the percent change to the
  list \<open>pcs\<close> of this call, and prints the line of the iteration. The callback
  \<^verbatim>\<open>message_function\<close> is taken to be absent.
\<close>

definition record_loss ::
  "bool \<Rightarrow> nat \<Rightarrow> real \<Rightarrow> real list \<Rightarrow> pct list \<Rightarrow> event list
     \<Rightarrow> real list \<times> pct list \<times> event list" where
  "record_loss verbose t cur ls pcs out =
     (let ls1 = ls @ [cur];
          pcs1 = pcs @ [case py_get ls1 (- 2) of
                          Inr prev \<Rightarrow> pct_of cur prev
                        | Inl e \<Rightarrow> Finite 100]
      in (ls1, pcs1, out @ (if verbose then [Iter_msg t cur (last pcs1)] else [])))"

text \<open>
  The second part, \<^verbatim>\<open>if len(self.loss) > 3 and t >= min_iter:\<close>, on the history
  \<open>ls\<close> and the percent changes \<open>pcs\<close> as the first part leaves them: the locals
  \<^verbatim>\<open>curr\<close> and \<^verbatim>\<open>prev\<close> are then the last two entries of the history.
\<close>

definition check_convergence ::
  "real \<Rightarrow> int \<Rightarrow> int \<Rightarrow> nat \<Rightarrow> real list \<Rightarrow> pct list \<Rightarrow> error + signal" where
  "check_convergence eps n_ago min_it t ls pcs =
     (if length ls > 3 \<and> min_it \<le> int t then
        (case py_get pcs (- 1) of Inl e \<Rightarrow> Inl e | Inr p1 \<Rightarrow>
        (case py_get pcs (- 2) of Inl e \<Rightarrow> Inl e | Inr p2 \<Rightarrow>
        (case py_get ls (- 3) of Inl e \<Rightarrow> Inl e | Inr l3 \<Rightarrow>
        (case py_get ls (- 2) of Inl e \<Rightarrow> Inl e | Inr prev \<Rightarrow>
        (case py_get ls (- 1) of Inl e \<Rightarrow> Inl e | Inr cur \<Rightarrow>
          let current_small = small eps p1;
              prev_small = small eps p2;
              not_inflection = (\<not> (\<bar>l3\<bar> < \<bar>prev\<bar> \<and> \<bar>prev\<bar> > \<bar>cur\<bar>));
              converged = (current_small \<and> prev_small \<and> not_inflection)
          in
          if converged then Inr Converged
          else if int (length ls) > n_ago \<and> n_ago \<noteq> 0 then
            (case py_get ls (- n_ago) of Inl e \<Rightarrow> Inl e | Inr nprev \<Rightarrow>
              let worse_than_n_ago = (\<bar>nprev\<bar> < \<bar>cur\<bar>);
                  getting_worse = (\<bar>prev\<bar> < \<bar>cur\<bar>)
              in
              if worse_than_n_ago \<and> getting_worse then Inr Getting_worse
              else Inr Continue)
          else Inr Continue)))))
      else Inr Continue)"

text \<open>What \<^verbatim>\<open>print\<close> shows before a \<^verbatim>\<open>break\<close>.\<close>

definition break_msg :: "error + signal \<Rightarrow> event list" where
  "break_msg r =
     (case r of
        Inr Converged \<Rightarrow> [Converged_msg]
      | Inr Getting_worse \<Rightarrow> [Getting_worse_msg]
      | _ \<Rightarrow> [])"

subsection \<open>The optimizer\<close>

text \<open>
  The local variables of \<^verbatim>\<open>_fit\<close> that an iteration reads and writes, together with
  the loss history of the instance (\<^verbatim>\<open>self.loss\<close>), the printed lines and the random
  source.
\<close>

record 'r vars =
  v_xi :: HPF_Gamma
  v_eta :: HPF_Gamma
  v_theta :: HPF_Gamma
  v_beta :: HPF_Gamma
  v_pct_change :: "pct list"
  v_loss :: "real list"
  v_out :: "event list"
  v_rng :: 'r

text \<open>\<^verbatim>\<open>X.data[:,None] * random_phi\<close>\<close>

definition scale_rows :: "real list \<Rightarrow> ndarray \<Rightarrow> ndarray" where
  "scale_rows xs phi =
     phi\<lparr>nd_data := concat (map (\<lambda>j. map (\<lambda>p. (xs ! j) * p) (nd_row phi j)) [0..<length xs])\<rparr>"

text \<open>The gene updates and the cell updates of one iteration.\<close>

definition gene_updates ::
  "'r externals \<Rightarrow> scHPF \<Rightarrow> coo_matrix \<Rightarrow> real \<Rightarrow> ndarray \<Rightarrow> 'r vars \<Rightarrow> 'r vars" where
  "gene_updates ext self X dp1 Xphi_data v =
     (let beta1 = (v_beta v)\<lparr>vi_shape :=
                     compute_loading_shape_update ext Xphi_data (coo_col X)
                       (snd (coo_shape X)) (hp_c self)\<rparr>;
          beta2 = beta1\<lparr>vi_rate :=
                     compute_loading_rate_update ext (vi_shape (v_eta v)) (vi_rate (v_eta v))
                       (vi_shape (v_theta v)) (vi_rate (v_theta v))\<rparr>;
          eta1 = (v_eta v)\<lparr>vi_rate := scalar_add dp1 (sum_axis1 (e_x beta2))\<rparr>
      in v\<lparr>v_beta := beta2, v_eta := eta1\<rparr>)"

definition cell_updates ::
  "'r externals \<Rightarrow> scHPF \<Rightarrow> coo_matrix \<Rightarrow> real \<Rightarrow> ndarray \<Rightarrow> 'r vars \<Rightarrow> 'r vars" where
  "cell_updates ext self X bp1 Xphi_data v =
     (let theta1 = (v_theta v)\<lparr>vi_shape :=
                      compute_loading_shape_update ext Xphi_data (coo_row X)
                        (fst (coo_shape X)) (hp_a self)\<rparr>;
          theta2 = theta1\<lparr>vi_rate :=
                      compute_loading_rate_update ext (vi_shape (v_xi v)) (vi_rate (v_xi v))
                        (vi_shape (v_beta v)) (vi_rate (v_beta v))\<rparr>;
          xi1 = (v_xi v)\<lparr>vi_rate := scalar_add bp1 (sum_axis1 (e_x theta2))\<rparr>
      in v\<lparr>v_theta := theta2, v_xi := xi1\<rparr>)"

text \<open>
  The body of \<^verbatim>\<open>for t in range(self.max_iter):\<close>, in two parts. The first computes
  \<^verbatim>\<open>Xphi_data\<close> and makes the gene updates (unless the genes are frozen) and the cell
  updates.
\<close>

definition compute_updates ::
  "'r externals \<Rightarrow> scHPF \<Rightarrow> coo_matrix \<Rightarrow> bool \<Rightarrow> bool \<Rightarrow> real \<Rightarrow> real \<Rightarrow> nat \<Rightarrow> 'r vars
     \<Rightarrow> 'r vars" where
  "compute_updates ext self X freeze_genes reinit bp1 dp1 t v =
     (case (if t = 0 \<and> reinit
            then (case dirichlet ext (replicate (nfactors self) 0.25) (length (coo_data X))
                         (v_rng v) of
                    (random_phi, g1) \<Rightarrow> (scale_rows (coo_data X) random_phi, g1))
            else (compute_Xphi_data ext (coo_data X) (coo_row X) (coo_col X)
                    (vi_shape (v_theta v)) (vi_rate (v_theta v))
                    (vi_shape (v_beta v)) (vi_rate (v_beta v)), v_rng v)) of
        (Xphi_data, g1) \<Rightarrow>
          let v1 = v\<lparr>v_rng := g1\<rparr>;
              v2 = (if \<not> freeze_genes then gene_updates ext self X dp1 Xphi_data v1 else v1)
          in cell_updates ext self X bp1 Xphi_data v2)"

text \<open>
  The second part records the loss and checks for convergence when
  \<^verbatim>\<open>t % self.check_freq == 0\<close> (Python's \<^verbatim>\<open>t % 0\<close> raises), and ends with
  \<^verbatim>\<open>if t >= self.max_iter: break\<close>.
\<close>

definition check_step ::
  "'r externals \<Rightarrow> scHPF \<Rightarrow> coo_matrix \<Rightarrow> coo_matrix option \<Rightarrow> bool \<Rightarrow> int \<Rightarrow> nat \<Rightarrow> 'r vars
     \<Rightarrow> 'r vars \<times> (error + signal)" where
  "check_step ext self X validation_data verbose min_it t v =
     (let past = (if max_iter self \<le> int t then Past_max_iter else Continue) in
      if check_freq self = 0 then (v, Inl ZeroDivisionError)
      else if int t mod check_freq self = 0 then
        (let vX = (case validation_data of Some V \<Rightarrow> V | None \<Rightarrow> X) in
         case pois_llh ext self vX (Some (v_theta v)) (Some (v_beta v)) of
           Inl e \<Rightarrow> (v, Inl e)
         | Inr llh \<Rightarrow>
             (case record_loss verbose t (- llh / real (length (coo_data vX)))
                     (v_loss v) (v_pct_change v) (v_out v) of
                (ls1, pcs1, out1) \<Rightarrow>
                  let r = check_convergence (epsilon self) (better_than_n_ago self) min_it t
                            ls1 pcs1
                  in (v\<lparr>v_loss := ls1, v_pct_change := pcs1, v_out := out1 @ break_msg r\<rparr>,
                      case r of Inr Continue \<Rightarrow> Inr past | _ \<Rightarrow> r)))
      else (v, Inr past))"

definition iteration ::
  "'r externals \<Rightarrow> scHPF \<Rightarrow> coo_matrix \<Rightarrow> coo_matrix option \<Rightarrow> bool \<Rightarrow> bool \<Rightarrow> bool \<Rightarrow> int
     \<Rightarrow> real \<Rightarrow> real \<Rightarrow> nat \<Rightarrow> 'r vars \<Rightarrow> 'r vars \<times> (error + signal)" where
  "iteration ext self X validation_data freeze_genes reinit verbose min_it bp1 dp1 t v =
     check_step ext self X validation_data verbose min_it t
       (compute_updates ext self X freeze_genes reinit bp1 dp1 t v)"

text \<open>The loop: the iterations in order, until one does not continue.\<close>

fun fit_loop ::
  "(nat \<Rightarrow> 'r vars \<Rightarrow> 'r vars \<times> (error + signal)) \<Rightarrow> nat list \<Rightarrow> 'r vars
     \<Rightarrow> 'r vars \<times> (error + signal)" where
  "fit_loop body [] v = (v, Inr Continue)"
| "fit_loop body (t # ts) v =
     (case body t v of
        (v1, Inr Continue) \<Rightarrow> fit_loop body ts v1
      | (v1, r) \<Rightarrow> (v1, r))"

text \<open>
  \<^verbatim>\<open>scHPF._fit\<close>, in three parts. First, after setup, the first updates for the
  hierarchical prior and the empty list of percent changes: the variables the loop starts
  from, for finite hyperparameters \<open>b1\<close> and \<open>d1\<close>.
\<close>

definition first_updates ::
  "scHPF \<Rightarrow> bool \<Rightarrow> real \<Rightarrow> real \<Rightarrow> setup_result \<Rightarrow> event list \<Rightarrow> 'r \<Rightarrow> 'r vars" where
  "first_updates self freeze_genes b1 d1 res out g =
     (case res of (bp1, dp1, xi1, eta1, theta1, beta1) \<Rightarrow>
        let xi2 = xi1\<lparr>vi_shape :=
                     fill (vi_shape xi1) (ap self + real (nfactors self) * hp_a self)\<rparr>;
            xi3 = xi2\<lparr>vi_rate := scalar_add b1 (sum_axis1 (e_x theta1))\<rparr>;
            eta3 = (if \<not> freeze_genes
                    then eta1\<lparr>vi_shape :=
                                fill (vi_shape eta1) (cp self + real (nfactors self) * hp_c self),
                              vi_rate := scalar_add d1 (sum_axis1 (e_x beta1))\<rparr>
                    else eta1)
        in \<lparr>v_xi = xi3, v_eta = eta3, v_theta = theta1, v_beta = beta1,
            v_pct_change = [], v_loss = loss self, v_out = out, v_rng = g\<rparr>)"

text \<open>
  Second, the instance as the call leaves it. A block that \<^verbatim>\<open>_setup\<close> has not
  created anew is the object the instance holds, so what the call writes to it is written
  to the instance, also when the call raises later; the loss history is always the
  instance's.
\<close>

definition written_back :: "scHPF \<Rightarrow> bool \<Rightarrow> bool \<Rightarrow> 'r vars \<Rightarrow> scHPF" where
  "written_back self freeze_genes reinit v =
     self\<lparr>loss := v_loss v,
          xi := (if \<not> reinit \<and> xi self \<noteq> None then Some (v_xi v) else xi self),
          theta := (if \<not> reinit \<and> theta self \<noteq> None then Some (v_theta v) else theta self),
          eta := (if (freeze_genes \<or> \<not> reinit) \<and> eta self \<noteq> None then Some (v_eta v)
                  else eta self),
          beta := (if (freeze_genes \<or> \<not> reinit) \<and> beta self \<noteq> None then Some (v_beta v)
                   else beta self)\<rparr>"

text \<open>
  Third, the call: setup, the first updates, the loop over \<^verbatim>\<open>range(self.max_iter)\<close>
  and the returned tuple. The result is what the call raises or returns, the instance,
  the printed lines and the random source after it. Setup can hand over a b' or d' that
  is not finite only when it has created no block from it; the first updates would then
  fill arrays with it, and the model ends there.
\<close>

type_synonym fit_result = "real \<times> real \<times> HPF_Gamma \<times> HPF_Gamma \<times> HPF_Gamma \<times> HPF_Gamma"

definition scHPF_fit_internal ::
  "'r externals \<Rightarrow> scHPF \<Rightarrow> coo_matrix \<Rightarrow> coo_matrix option \<Rightarrow> bool \<Rightarrow> bool \<Rightarrow> bool
     \<Rightarrow> int option \<Rightarrow> 'r \<Rightarrow> (error + fit_result) \<times> scHPF \<times> event list \<times> 'r" where
  "scHPF_fit_internal ext self X validation_data freeze_genes reinit verbose min_iter_arg g =
     (case scHPF_setup ext self X freeze_genes reinit True g of
        (Inl e, out, g1) \<Rightarrow> (Inl e, self, out, g1)
      | (Inr res, out, g1) \<Rightarrow>
          (case (fst res, fst (snd res)) of
             (Num b1, Num d1) \<Rightarrow>
               (case fit_loop
                       (iteration ext self X validation_data freeze_genes reinit verbose
                          (case min_iter_arg of None \<Rightarrow> min_iter self | Some m \<Rightarrow> m) b1 d1)
                       [0..<nat (max_iter self)]
                       (first_updates self freeze_genes b1 d1 res out g1) of
                  (v, r) \<Rightarrow>
                    (case r of
                       Inl e \<Rightarrow> Inl e
                     | Inr sig \<Rightarrow> Inr (b1, d1, v_xi v, v_eta v, v_theta v, v_beta v),
                     written_back self freeze_genes reinit v, v_out v, v_rng v))
           | _ \<Rightarrow> (Inl Beyond_reals, self, out, g1)))"

text \<open>\<^verbatim>\<open>scHPF.fit\<close>, with the keyword arguments it hands to \<^verbatim>\<open>_fit\<close>.\<close>

definition scHPF_fit ::
  "'r externals \<Rightarrow> scHPF \<Rightarrow> coo_matrix \<Rightarrow> coo_matrix option \<Rightarrow> bool \<Rightarrow> bool \<Rightarrow> bool
     \<Rightarrow> int option \<Rightarrow> 'r \<Rightarrow> error option \<times> scHPF \<times> event list \<times> 'r" where
  "scHPF_fit ext self X validation_data freeze_genes reinit verbose min_iter_arg g =
     (case scHPF_fit_internal ext self X validation_data freeze_genes reinit verbose
             min_iter_arg g of
        (Inl e, self1, out, g1) \<Rightarrow> (Some e, self1, out, g1)
      | (Inr (bp1, dp1, xi1, eta1, theta1, beta1), self1, out, g1) \<Rightarrow>
          (None,
           self1\<lparr>bp := Some bp1, dp := Some dp1, xi := Some xi1, eta := Some eta1,
                 theta := Some theta1, beta := Some beta1\<rparr>,
           out, g1))"

text \<open>\<^verbatim>\<open>scHPF.project\<close>: its parameter \<^verbatim>\<open>min_iter\<close> is \<open>min_iter_arg\<close>.\<close>

definition scHPF_project ::
  "'r externals \<Rightarrow> scHPF \<Rightarrow> coo_matrix \<Rightarrow> coo_matrix option \<Rightarrow> int \<Rightarrow> 'r
     \<Rightarrow> (error + real \<times> HPF_Gamma \<times> HPF_Gamma) \<times> scHPF \<times> event list \<times> 'r" where
  "scHPF_project ext self X validation_data min_iter_arg g =
     (case scHPF_fit_internal ext self X validation_data True True True None g of
        (Inl e, self1, out, g1) \<Rightarrow> (Inl e, self1, out, g1)
      | (Inr (bp1, dp1, xi1, eta1, theta1, beta1), self1, out, g1) \<Rightarrow>
          (Inr (bp1, xi1, theta1), self1, out, g1))"

section \<open>A deterministic instance of the library calls\<close>

text \<open>
  To evaluate the model on concrete inputs the parameters need values. The sampler
  returns the midpoint of its interval at every position and counts the draws; the
  Dirichlet draw is uniform over the factors; the kernels return arrays of the expected
  shape filled with a constant; \<^verbatim>\<open>compute_pois_llh\<close> is unbound, so the numpy
  expressions of the scorer run; the log-gamma function is exact on the positive integers.
  No theorem about the code depends on these choices.
\<close>

definition const_array :: "nat list \<Rightarrow> real \<Rightarrow> ndarray" where
  "const_array ds x = \<lparr>nd_shape = ds, nd_data = replicate (prod_list ds) x\<rparr>"

definition mid_externals :: "nat externals" where
  "mid_externals =
     \<lparr>uniform = (\<lambda>lo hi ds g. (const_array ds ((lo + hi) / 2), Suc g)),
      dirichlet = (\<lambda>alpha n g. (const_array [n, length alpha] (1 / real (length alpha)), Suc g)),
      compute_Xphi_data = (\<lambda>xs rs cs ts tr bs br.
         \<lparr>nd_shape = [length xs, ncols ts],
          nd_data = concat (map (\<lambda>x. replicate (ncols ts) (x / real (ncols ts))) xs)\<rparr>),
      compute_loading_shape_update = (\<lambda>Xphi idx n prior. const_array [n, ncols Xphi] (prior + 1)),
      compute_loading_rate_update = (\<lambda>cs cr ls lr. const_array [nrows cs, ncols ls] 1),
      compute_pois_llh = None,
      gammaln = (\<lambda>x. ln (fact (nat \<lfloor>x\<rfloor> - 1)))\<rparr>"

text \<open>
  A second instance binds \<^verbatim>\<open>compute_pois_llh\<close> to a kernel that scores every entry
  \<open>- s\<close>, so that the loss recorded at a check is \<open>s\<close>.
\<close>

definition scored_externals :: "real \<Rightarrow> nat externals" where
  "scored_externals s =
     mid_externals\<lparr>compute_pois_llh := Some (\<lambda>xs rs cs ts tr bs br. map (\<lambda>x. - s) xs)\<rparr>"

text \<open>
  Small inputs: a 2 by 2 matrix with two entries (row and column sums 1 and 3), one with a
  single entry (row and column sums 0 and 2), one with row sums 2 and 6 and both column
  sums 4, a block, an instance, an instance that holds four blocks, loop variables.
\<close>

definition toy_X :: coo_matrix where
  "toy_X = \<lparr>coo_shape = (2, 2), coo_row = [0, 1], coo_col = [0, 1], coo_data = [1, 3]\<rparr>"

definition two_X :: coo_matrix where
  "two_X = \<lparr>coo_shape = (2, 2), coo_row = [1], coo_col = [1], coo_data = [2]\<rparr>"

definition level_X :: coo_matrix where
  "level_X = \<lparr>coo_shape = (2, 2), coo_row = [0, 0, 1, 1], coo_col = [0, 1, 0, 1],
                coo_data = [1, 1, 3, 3]\<rparr>"

definition toy_block :: "nat list \<Rightarrow> HPF_Gamma" where
  "toy_block ds = \<lparr>vi_shape = const_array ds 1, vi_rate = const_array ds 2, dims = ds\<rparr>"

definition toy_config :: "int \<Rightarrow> int \<Rightarrow> int \<Rightarrow> int \<Rightarrow> scHPF" where
  "toy_config mn mx cf n_ago =
     scHPF_init 1 0.3 1 None 0.3 1 None mn mx cf 0.001 n_ago None None None None None"

definition kept_blocks :: "scHPF \<Rightarrow> scHPF" where
  "kept_blocks self =
     self\<lparr>xi := Some (toy_block [2]), eta := Some (toy_block [2]),
          theta := Some (toy_block [2, 1]), beta := Some (toy_block [2, 1])\<rparr>"

definition toy_vars :: "real list \<Rightarrow> pct list \<Rightarrow> nat vars" where
  "toy_vars ls pcs =
     \<lparr>v_xi = toy_block [2], v_eta = toy_block [2], v_theta = toy_block [2, 1],
      v_beta = toy_block [2, 1], v_pct_change = pcs, v_loss = ls, v_out = [], v_rng = 0\<rparr>"

text \<open>
  The instance after one fit of one iteration, the instance after one fit of three
  iterations, and the b' a projection returns.
\<close>

definition fitted_once :: scHPF where
  "fitted_once =
     fst (snd (scHPF_fit (scored_externals 1) (toy_config 0 1 1 5) toy_X None False True True
                 None 0))"

definition fitted_thrice :: scHPF where
  "fitted_thrice =
     fst (snd (scHPF_fit (scored_externals 1) (toy_config 0 3 1 5) toy_X None False True True
                 None 0))"

definition projected_bp :: "error + real \<times> HPF_Gamma \<times> HPF_Gamma \<Rightarrow> real option" where
  "projected_bp r = (case r of Inl e \<Rightarrow> None | Inr (b, rest) \<Rightarrow> Some b)"

section \<open>Facts about indexing and the convergence check\<close>

lemma py_get_neg:
  "0 < k \<Longrightarrow> py_get xs (- int k) =
     (if k \<le> length xs then Inr (xs ! (length xs - k)) else Inl IndexError)"
  by (simp add: py_get_def)

lemma py_get_last: "k \<le> length xs \<Longrightarrow> 0 < k \<Longrightarrow> py_get xs (- int k) = Inr (xs ! (length xs - k))"
  by (simp add: py_get_neg)

lemma py_get_m1: "1 \<le> length xs \<Longrightarrow> py_get xs (- 1) = Inr (xs ! (length xs - 1))"
  using py_get_last [of 1 xs] by simp

lemma py_get_m2: "2 \<le> length xs \<Longrightarrow> py_get xs (- 2) = Inr (xs ! (length xs - 2))"
  using py_get_last [of 2 xs] by simp

lemma py_get_m3: "3 \<le> length xs \<Longrightarrow> py_get xs (- 3) = Inr (xs ! (length xs - 3))"
  using py_get_last [of 3 xs] by simp

lemma py_get_m2_short: "length xs < 2 \<Longrightarrow> py_get xs (- 2) = Inl IndexError"
  using py_get_neg [of 2 xs] by simp

lemma check_convergence_gate:
  "\<not> (3 < length ls \<and> m \<le> int t) \<Longrightarrow> check_convergence eps n m t ls pcs = Inr Continue"
  by (auto simp: check_convergence_def)

lemma check_convergence_short:
  "3 < length ls \<Longrightarrow> m \<le> int t \<Longrightarrow> length pcs < 2 \<Longrightarrow>
     check_convergence eps n m t ls pcs = Inl IndexError"
  by (cases "1 \<le> length pcs") (simp_all add: check_convergence_def py_get_m1 py_get_m2_short py_get_def)

lemma check_convergence_open:
  "3 < length ls \<Longrightarrow> m \<le> int t \<Longrightarrow> 2 \<le> length pcs \<Longrightarrow>
   check_convergence eps n m t ls pcs =
     (if small eps (pcs ! (length pcs - 1)) \<and> small eps (pcs ! (length pcs - 2))
         \<and> \<not> (\<bar>ls ! (length ls - 3)\<bar> < \<bar>ls ! (length ls - 2)\<bar>
                \<and> \<bar>ls ! (length ls - 2)\<bar> > \<bar>ls ! (length ls - 1)\<bar>)
      then Inr Converged
      else if int (length ls) > n \<and> n \<noteq> 0 then
        (case py_get ls (- n) of Inl e \<Rightarrow> Inl e | Inr nprev \<Rightarrow>
           if \<bar>nprev\<bar> < \<bar>ls ! (length ls - 1)\<bar>
              \<and> \<bar>ls ! (length ls - 2)\<bar> < \<bar>ls ! (length ls - 1)\<bar>
           then Inr Getting_worse else Inr Continue)
      else Inr Continue)"
  by (auto simp add: check_convergence_def py_get_m1 py_get_m2 py_get_m3 Let_def split: sum.split)

lemma gene_updates_frame [simp]:
  "v_loss (gene_updates ext self X d Xphi v) = v_loss v"
  "v_pct_change (gene_updates ext self X d Xphi v) = v_pct_change v"
  "v_out (gene_updates ext self X d Xphi v) = v_out v"
  "v_rng (gene_updates ext self X d Xphi v) = v_rng v"
  by (simp_all add: gene_updates_def Let_def)

lemma cell_updates_frame [simp]:
  "v_loss (cell_updates ext self X b Xphi v) = v_loss v"
  "v_pct_change (cell_updates ext self X b Xphi v) = v_pct_change v"
  "v_out (cell_updates ext self X b Xphi v) = v_out v"
  "v_rng (cell_updates ext self X b Xphi v) = v_rng v"
  "v_eta (cell_updates ext self X b Xphi v) = v_eta v"
  "v_beta (cell_updates ext self X b Xphi v) = v_beta v"
  by (simp_all add: cell_updates_def Let_def)

lemma record_loss_eq:
  "record_loss vb t cur ls pcs out =
     (ls @ [cur], pcs @ [if ls = [] then Finite 100 else pct_of cur (last ls)],
      out @ (if vb then [Iter_msg t cur (if ls = [] then Finite 100 else pct_of cur (last ls))] else []))"
proof (cases "ls = []")
  case True
  then show ?thesis by (simp add: record_loss_def py_get_def)
next
  case False
  then have "py_get (ls @ [cur]) (- 2) = Inr (last ls)"
    using py_get_m2 [of "ls @ [cur]"] by (cases ls rule: rev_cases) (auto simp: nth_append)
  with False show ?thesis by (simp add: record_loss_def)
qed

lemmas eval_defs = iteration_def compute_updates_def check_step_def gene_updates_def
  cell_updates_def scored_externals_def mid_externals_def toy_X_def toy_block_def toy_config_def
  toy_vars_def scHPF_init_def const_array_def pois_llh_def pois_llh_pointwise_def record_loss_eq
  check_convergence_def py_get_def pct_of_def small_def break_msg_def Let_def scalar_add_def
  sum_axis1_def e_x_def nd_div_def nrows_def ncols_def nd_row_def

lemma compute_updates_frame [simp]:
  "v_loss (compute_updates ext self X fg reinit b d t v) = v_loss v"
  "v_pct_change (compute_updates ext self X fg reinit b d t v) = v_pct_change v"
  "v_out (compute_updates ext self X fg reinit b d t v) = v_out v"
  by (simp_all add: compute_updates_def Let_def split: prod.split)

lemma compute_updates_frozen [simp]:
  "v_eta (compute_updates ext self X True reinit b d t v) = v_eta v"
  "v_beta (compute_updates ext self X True reinit b d t v) = v_beta v"
  by (simp_all add: compute_updates_def Let_def split: prod.split)

lemma check_step_nocheck:
  "check_freq self = 0 \<or> int t mod check_freq self \<noteq> 0 \<Longrightarrow>
     fst (check_step ext self X vd vb m t v) = v
     \<and> snd (check_step ext self X vd vb m t v) \<noteq> Inr Converged
     \<and> snd (check_step ext self X vd vb m t v) \<noteq> Inr Getting_worse"
  by (auto simp: check_step_def Let_def)

lemma check_step_llh_error:
  "check_freq self \<noteq> 0 \<Longrightarrow> int t mod check_freq self = 0 \<Longrightarrow>
   pois_llh ext self (case vd of Some V \<Rightarrow> V | None \<Rightarrow> X) (Some (v_theta v)) (Some (v_beta v))
     = Inl e \<Longrightarrow>
   check_step ext self X vd vb m t v = (v, Inl e)"
  by (simp add: check_step_def Let_def)

lemma check_step_check:
  assumes "check_freq self \<noteq> 0" "int t mod check_freq self = 0"
    and "pois_llh ext self (case vd of Some V \<Rightarrow> V | None \<Rightarrow> X) (Some (v_theta v))
           (Some (v_beta v)) = Inr llh"
    and "cur = - (llh / real (length (coo_data (case vd of Some V \<Rightarrow> V | None \<Rightarrow> X))))"
    and "p = (if v_loss v = [] then Finite 100 else pct_of cur (last (v_loss v)))"
    and "r0 = check_convergence (epsilon self) (better_than_n_ago self) m t
                (v_loss v @ [cur]) (v_pct_change v @ [p])"
  shows "v_loss (fst (check_step ext self X vd vb m t v)) = v_loss v @ [cur]"
    and "v_pct_change (fst (check_step ext self X vd vb m t v)) = v_pct_change v @ [p]"
    and "snd (check_step ext self X vd vb m t v) =
           (case r0 of
              Inr Continue \<Rightarrow> Inr (if max_iter self \<le> int t then Past_max_iter else Continue)
            | _ \<Rightarrow> r0)"
  unfolding assms(6) assms(5) assms(4) using assms(1-3)
  by (simp_all add: check_step_def Let_def record_loss_eq split del: if_split)

lemma check_step_shape:
  assumes "check_step ext self X vd vb m t v = (v', r)"
  shows "(v_loss v' = v_loss v \<and> v_pct_change v' = v_pct_change v
            \<and> r \<noteq> Inr Converged \<and> r \<noteq> Inr Getting_worse)
       \<or> (check_freq self \<noteq> 0 \<and> int t mod check_freq self = 0
           \<and> (\<exists>cur p. v_loss v' = v_loss v @ [cur] \<and> v_pct_change v' = v_pct_change v @ [p]
                \<and> (case check_convergence (epsilon self) (better_than_n_ago self) m t
                           (v_loss v') (v_pct_change v') of
                      Inr Continue \<Rightarrow> r \<noteq> Inr Converged \<and> r \<noteq> Inr Getting_worse
                    | x \<Rightarrow> r = x)))"
proof -
  have v': "v' = fst (check_step ext self X vd vb m t v)"
    and r: "r = snd (check_step ext self X vd vb m t v)"
    using assms by simp_all
  show ?thesis
  proof (cases "check_freq self = 0 \<or> int t mod check_freq self \<noteq> 0")
    case True
    from check_step_nocheck [OF True, of ext X vd vb m v] show ?thesis
      unfolding v' r by simp
  next
    case chk: False
    define vX where "vX = (case vd of Some V \<Rightarrow> V | None \<Rightarrow> X)"
    show ?thesis
    proof (cases "pois_llh ext self vX (Some (v_theta v)) (Some (v_beta v))")
      case (Inl e)
      have "check_step ext self X vd vb m t v = (v, Inl e)"
      proof (rule check_step_llh_error)
        show "check_freq self \<noteq> 0" using chk by simp
        show "int t mod check_freq self = 0" using chk by simp
        show "pois_llh ext self (case vd of Some V \<Rightarrow> V | None \<Rightarrow> X) (Some (v_theta v))
                (Some (v_beta v)) = Inl e"
          using Inl by (simp add: vX_def)
      qed
      then show ?thesis unfolding v' r by simp
    next
      case (Inr llh)
      define cur where "cur = - (llh / real (length (coo_data vX)))"
      define p where "p = (if v_loss v = [] then Finite 100 else pct_of cur (last (v_loss v)))"
      define r0 where "r0 = check_convergence (epsilon self) (better_than_n_ago self) m t
                (v_loss v @ [cur]) (v_pct_change v @ [p])"
      have c1: "check_freq self \<noteq> 0" and c2: "int t mod check_freq self = 0"
        using chk by simp_all
      note facts = check_step_check [OF c1 c2 Inr [unfolded vX_def] cur_def [unfolded vX_def]
          p_def r0_def, of vb]
      have "case r0 of Inr Continue \<Rightarrow> r \<noteq> Inr Converged \<and> r \<noteq> Inr Getting_worse | x \<Rightarrow> r = x"
        unfolding r facts(3) by (auto split: sum.split signal.split)
      then show ?thesis
        unfolding v' using facts(1,2) c1 c2 by (auto simp: r0_def)
    qed
  qed
qed


lemma iteration_shape:
  assumes "iteration ext self X vd fg reinit vb m bp1 dp1 t v = (v', r)"
  shows "(v_loss v' = v_loss v \<and> v_pct_change v' = v_pct_change v
            \<and> r \<noteq> Inr Converged \<and> r \<noteq> Inr Getting_worse)
       \<or> (check_freq self \<noteq> 0 \<and> int t mod check_freq self = 0
           \<and> (\<exists>cur p. v_loss v' = v_loss v @ [cur] \<and> v_pct_change v' = v_pct_change v @ [p]
                \<and> (case check_convergence (epsilon self) (better_than_n_ago self) m t
                           (v_loss v') (v_pct_change v') of
                      Inr Continue \<Rightarrow> r \<noteq> Inr Converged \<and> r \<noteq> Inr Getting_worse
                    | x \<Rightarrow> r = x)))"
  using check_step_shape [of ext self X vd vb m t "compute_updates ext self X fg reinit bp1 dp1 t v" v' r]
    assms
  by (simp add: iteration_def)

lemma check_convergence_worse_iff:
  "(check_convergence eps n m t ls pcs = Inr Getting_worse) =
     (4 \<le> length ls \<and> m \<le> int t \<and> 2 \<le> length pcs
      \<and> \<not> (small eps (pcs ! (length pcs - 1)) \<and> small eps (pcs ! (length pcs - 2))
             \<and> \<not> (\<bar>ls ! (length ls - 3)\<bar> < \<bar>ls ! (length ls - 2)\<bar>
                    \<and> \<bar>ls ! (length ls - 2)\<bar> > \<bar>ls ! (length ls - 1)\<bar>))
      \<and> n < int (length ls) \<and> n \<noteq> 0
      \<and> (\<exists>nprev. py_get ls (- n) = Inr nprev \<and> \<bar>nprev\<bar> < \<bar>ls ! (length ls - 1)\<bar>)
      \<and> \<bar>ls ! (length ls - 2)\<bar> < \<bar>ls ! (length ls - 1)\<bar>)"
proof (cases "3 < length ls \<and> m \<le> int t")
  case False
  then show ?thesis using check_convergence_gate [OF False] by auto
next
  case gate: True
  show ?thesis
  proof (cases "2 \<le> length pcs")
    case False
    then show ?thesis using gate check_convergence_short [of ls m t pcs eps n] by auto
  next
    case True
    then show ?thesis using gate check_convergence_open [of ls m t pcs eps n]
      by (auto split: sum.splits)
  qed
qed

section \<open>Facts about setup\<close>

text \<open>What a result of setup holds, when there is one.\<close>

definition returned_bp :: "error + setup_result \<Rightarrow> float64 option" where
  "returned_bp r = (case r of Inl e \<Rightarrow> None | Inr (b, rest) \<Rightarrow> Some b)"

definition returned_dp :: "error + setup_result \<Rightarrow> float64 option" where
  "returned_dp r = (case r of Inl e \<Rightarrow> None | Inr (b, d, rest) \<Rightarrow> Some d)"

lemma reinit_or_keep_error:
  "reinit_or_keep ext reinit blk ds sp rp g = (Inl e, g1) \<Longrightarrow>
     e = AssertionError \<or> e = OverflowError"
  by (auto simp: reinit_or_keep_def random_gamma_factory_def HPF_Gamma_init_def
      split: option.splits prod.splits if_splits float64.splits)

lemma setup_dp_none_frozen:
  "dp self = None \<Longrightarrow>
     scHPF_setup ext self X True reinit clip g = (Inl (ValueError msg_dp_none), [], g)"
  by (simp add: scHPF_setup_def Let_def)

text \<open>The hyperparameters and the printed lines that setup resolves before any block.\<close>

definition resolved_bp :: "scHPF \<Rightarrow> coo_matrix \<Rightarrow> float64" where
  "resolved_bp self X =
     (case bp self of None \<Rightarrow> scaled (ap self) (mean_var_ratio X 1) | Some b \<Rightarrow> Num b)"

definition resolved_dp :: "scHPF \<Rightarrow> coo_matrix \<Rightarrow> bool \<Rightarrow> float64" where
  "resolved_dp self X clip =
     (case dp self of
        Some d \<Rightarrow> Num d
      | None \<Rightarrow> if clip \<and> exceeds (resolved_bp self X) (scaled 1000 (scaled (cp self) (mean_var_ratio X 0)))
                then divided (resolved_bp self X) 1000 else scaled (cp self) (mean_var_ratio X 0))"

definition setup_output :: "scHPF \<Rightarrow> coo_matrix \<Rightarrow> bool \<Rightarrow> event list" where
  "setup_output self X clip =
     (if dp self = None \<and> clip \<and> exceeds (resolved_bp self X) (scaled 1000 (scaled (cp self) (mean_var_ratio X 0)))
      then [Clipping_dp (scaled (cp self) (mean_var_ratio X 0)) (divided (resolved_bp self X) 1000)] else [])"

lemma setup_unfold:
  assumes "\<not> (dp self = None \<and> fg)"
  shows "scHPF_setup ext self X fg reinit clip g =
     (case reinit_or_keep ext reinit (xi self) [fst (coo_shape X)] (ap self) (resolved_bp self X) g of
          (Inl e, g1) \<Rightarrow> (Inl e, setup_output self X clip, g1)
        | (Inr xi1, g1) \<Rightarrow>
        (case reinit_or_keep ext reinit (theta self) [fst (coo_shape X), nfactors self] (hp_a self) (resolved_bp self X) g1 of
          (Inl e, g2) \<Rightarrow> (Inl e, setup_output self X clip, g2)
        | (Inr theta1, g2) \<Rightarrow>
        if fg then
          (case (eta self, beta self) of
             (Some eta1, Some beta1) \<Rightarrow> (Inr (resolved_bp self X, resolved_dp self X clip, xi1, eta1, theta1, beta1), setup_output self X clip, g2)
           | _ \<Rightarrow> (Inl (ValueError msg_genes_unset), setup_output self X clip, g2))
        else
          (case reinit_or_keep ext reinit (eta self) [snd (coo_shape X)] (cp self) (resolved_dp self X clip) g2 of
            (Inl e, g3) \<Rightarrow> (Inl e, setup_output self X clip, g3)
          | (Inr eta1, g3) \<Rightarrow>
          (case reinit_or_keep ext reinit (beta self) [snd (coo_shape X), nfactors self] (hp_c self) (resolved_dp self X clip) g3 of
            (Inl e, g4) \<Rightarrow> (Inl e, setup_output self X clip, g4)
          | (Inr beta1, g4) \<Rightarrow> (Inr (resolved_bp self X, resolved_dp self X clip, xi1, eta1, theta1, beta1), setup_output self X clip, g4)))))"
proof -
  have d: "(case dp self of Some d \<Rightarrow> Num d
            | None \<Rightarrow> if dp self = None \<and> clip \<and> exceeds (resolved_bp self X) (scaled 1000 (scaled (cp self) (mean_var_ratio X 0)))
                      then divided (resolved_bp self X) 1000 else scaled (cp self) (mean_var_ratio X 0))
           = resolved_dp self X clip"
    by (cases "dp self") (simp_all add: resolved_dp_def)
  show ?thesis
    unfolding scHPF_setup_def Let_def resolved_bp_def [symmetric]
      setup_output_def [symmetric] d if_not_P [OF assms]
    by (rule refl)
qed

lemma setup_outcome:
  assumes n: "\<not> (dp self = None \<and> fg)"
  shows "(\<exists>e g1. scHPF_setup ext self X fg reinit clip g
                 = (Inl e, setup_output self X clip, g1)
               \<and> (e = AssertionError \<or> e = OverflowError))
     \<or> (fg \<and> (eta self = None \<or> beta self = None)
          \<and> (\<exists>g1. scHPF_setup ext self X fg reinit clip g
                 = (Inl (ValueError msg_genes_unset), setup_output self X clip, g1)))
     \<or> (\<exists>x e th be g1. scHPF_setup ext self X fg reinit clip g
                 = (Inr (resolved_bp self X, resolved_dp self X clip, x, e, th, be),
                    setup_output self X clip, g1)
            \<and> (fg \<longrightarrow> eta self = Some e \<and> beta self = Some be))"
proof -
  obtain r1 g1 where k1: "reinit_or_keep ext reinit (xi self) [fst (coo_shape X)] (ap self)
      (resolved_bp self X) g = (r1, g1)"
    by (cases "reinit_or_keep ext reinit (xi self) [fst (coo_shape X)] (ap self)
      (resolved_bp self X) g")
  show ?thesis
  proof (cases r1)
    case (Inl e1)
    then have "e1 = AssertionError \<or> e1 = OverflowError"
      using k1 by (auto dest: reinit_or_keep_error)
    then show ?thesis unfolding setup_unfold [OF n] using k1 Inl by simp
  next
    case x: (Inr x)
    obtain r2 g2 where k2: "reinit_or_keep ext reinit (theta self)
        [fst (coo_shape X), nfactors self] (hp_a self) (resolved_bp self X) g1 = (r2, g2)"
      by (cases "reinit_or_keep ext reinit (theta self)
        [fst (coo_shape X), nfactors self] (hp_a self) (resolved_bp self X) g1")
    show ?thesis
    proof (cases r2)
      case (Inl e2)
      then have "e2 = AssertionError \<or> e2 = OverflowError"
      using k2 by (auto dest: reinit_or_keep_error)
      then show ?thesis unfolding setup_unfold [OF n] using k1 x k2 Inl by simp
    next
      case th: (Inr th)
      show ?thesis
      proof (cases fg)
        case True
        show ?thesis
        proof (cases "eta self")
          case None
          then show ?thesis unfolding setup_unfold [OF n] using k1 x k2 th True by simp
        next
          case e: (Some e)
          show ?thesis
          proof (cases "beta self")
            case None
            then show ?thesis unfolding setup_unfold [OF n] using k1 x k2 th True e by simp
          next
            case (Some be)
            then show ?thesis unfolding setup_unfold [OF n] using k1 x k2 th True e by simp
          qed
        qed
      next
        case False
        obtain r3 g3 where k3: "reinit_or_keep ext reinit (eta self) [snd (coo_shape X)]
            (cp self) (resolved_dp self X clip) g2 = (r3, g3)"
          by (cases "reinit_or_keep ext reinit (eta self) [snd (coo_shape X)]
            (cp self) (resolved_dp self X clip) g2")
        show ?thesis
        proof (cases r3)
          case (Inl e3)
          then have "e3 = AssertionError \<or> e3 = OverflowError"
      using k3 by (auto dest: reinit_or_keep_error)
          then show ?thesis unfolding setup_unfold [OF n] using k1 x k2 th False k3 Inl by simp
        next
          case e: (Inr e)
          obtain r4 g4 where k4: "reinit_or_keep ext reinit (beta self)
              [snd (coo_shape X), nfactors self] (hp_c self) (resolved_dp self X clip) g3
              = (r4, g4)"
            by (cases "reinit_or_keep ext reinit (beta self)
              [snd (coo_shape X), nfactors self] (hp_c self) (resolved_dp self X clip) g3")
          show ?thesis
          proof (cases r4)
            case (Inl e4)
            then have "e4 = AssertionError \<or> e4 = OverflowError"
      using k4 by (auto dest: reinit_or_keep_error)
            then show ?thesis unfolding setup_unfold [OF n] using k1 x k2 th False k3 e k4 Inl by simp
          next
            case (Inr be)
            then show ?thesis unfolding setup_unfold [OF n] using k1 x k2 th False k3 e k4 by simp
          qed
        qed
      qed
    qed
  qed
qed

lemma msgs_differ: "msg_dp_none \<noteq> msg_genes_unset"
  by (simp add: msg_dp_none_def msg_genes_unset_def)

lemma setup_result_values:
  assumes "scHPF_setup ext self X fg reinit clip g = (Inr (b, d, x, e, th, be), out, g')"
  shows "b = resolved_bp self X \<and> d = resolved_dp self X clip \<and> out = setup_output self X clip
         \<and> (fg \<longrightarrow> eta self = Some e \<and> beta self = Some be)"
proof (cases "dp self = None \<and> fg")
  case True
  then show ?thesis using assms setup_dp_none_frozen [of self ext X reinit clip g] by simp
next
  case False
  from setup_outcome [OF False, of ext X reinit clip g] show ?thesis
    unfolding assms by auto
qed

lemma setup_value_error:
  assumes "fst (scHPF_setup ext self X fg reinit clip g) = Inl (ValueError msg)"
  shows "fg \<and> ((dp self = None \<and> msg = msg_dp_none)
               \<or> (dp self \<noteq> None \<and> (eta self = None \<or> beta self = None)
                   \<and> msg = msg_genes_unset))"
proof (cases "dp self = None \<and> fg")
  case True
  then show ?thesis using assms setup_dp_none_frozen [of self ext X reinit clip g] by simp
next
  case False
  from setup_outcome [OF False, of ext X reinit clip g] assms False show ?thesis
    by (elim disjE exE conjE) auto
qed

lemma setup_frozen_unset:
  assumes "eta self = None \<or> beta self = None"
  shows "\<exists>e. fst (scHPF_setup ext self X True reinit clip g) = Inl e"
proof (cases "dp self = None \<and> True")
  case True
  then show ?thesis using setup_dp_none_frozen [of self ext X reinit clip g] by simp
next
  case False
  from setup_outcome [OF False, of ext X reinit clip g] assms show ?thesis
    by (elim disjE exE conjE) auto
qed

lemma fit_internal_setup_error:
  assumes "fst (scHPF_setup ext self X fg reinit True g) = Inl e"
  shows "fst (scHPF_fit_internal ext self X vd fg reinit vb mi g) = Inl e"
    and "fst (snd (scHPF_fit_internal ext self X vd fg reinit vb mi g)) = self"
proof -
  obtain out g1 where "scHPF_setup ext self X fg reinit True g = (Inl e, out, g1)"
    using assms by (cases "scHPF_setup ext self X fg reinit True g") auto
  then show "fst (scHPF_fit_internal ext self X vd fg reinit vb mi g) = Inl e"
    and "fst (snd (scHPF_fit_internal ext self X vd fg reinit vb mi g)) = self"
    by (simp_all add: scHPF_fit_internal_def)
qed

lemma setup_dp_error_iff:
  "(fst (scHPF_setup ext self X fg reinit clip g) = Inl (ValueError msg_dp_none))
       = (dp self = None \<and> fg)"
proof
  assume "fst (scHPF_setup ext self X fg reinit clip g) = Inl (ValueError msg_dp_none)"
  from setup_value_error [OF this] msgs_differ show "dp self = None \<and> fg" by blast
next
  assume h: "dp self = None \<and> fg"
  then have "scHPF_setup ext self X True reinit clip g
               = (Inl (ValueError msg_dp_none), [], g)"
    by (intro setup_dp_none_frozen) simp
  with h show "fst (scHPF_setup ext self X fg reinit clip g) = Inl (ValueError msg_dp_none)"
    by simp
qed

lemma setup_value_error_frozen:
  assumes "\<exists>msg. fst (scHPF_setup ext self X fg reinit clip g) = Inl (ValueError msg)"
  shows "fg \<and> (dp self = None \<or> eta self = None \<or> beta self = None)"
proof -
  from assms obtain msg
    where "fst (scHPF_setup ext self X fg reinit clip g) = Inl (ValueError msg)" ..
  from setup_value_error [OF this] show ?thesis by auto
qed

lemma setup_genes_error_iff:
  "(fst (scHPF_setup ext self X fg reinit clip g) = Inl (ValueError msg_genes_unset)) =
     (fg \<and> dp self \<noteq> None \<and> (eta self = None \<or> beta self = None)
      \<and> (\<exists>x g1 th g2.
            reinit_or_keep ext reinit (xi self) [fst (coo_shape X)] (ap self)
              (resolved_bp self X) g = (Inr x, g1)
            \<and> reinit_or_keep ext reinit (theta self) [fst (coo_shape X), nfactors self]
                (hp_a self) (resolved_bp self X) g1 = (Inr th, g2)))"
proof (cases "dp self = None \<and> fg")
  case True
  then show ?thesis
    using setup_dp_none_frozen [of self ext X reinit clip g] msgs_differ by auto
next
  case n: False
  obtain r1 g1 where k1: "reinit_or_keep ext reinit (xi self) [fst (coo_shape X)] (ap self)
      (resolved_bp self X) g = (r1, g1)"
    by (cases "reinit_or_keep ext reinit (xi self) [fst (coo_shape X)] (ap self)
      (resolved_bp self X) g")
  show ?thesis
  proof (cases r1)
    case (Inl e1)
    then have "e1 = AssertionError \<or> e1 = OverflowError"
      using k1 by (auto dest: reinit_or_keep_error)
    then show ?thesis unfolding setup_unfold [OF n] using k1 Inl by auto
  next
    case x: (Inr x)
    obtain r2 g2 where k2: "reinit_or_keep ext reinit (theta self)
        [fst (coo_shape X), nfactors self] (hp_a self) (resolved_bp self X) g1 = (r2, g2)"
      by (cases "reinit_or_keep ext reinit (theta self)
        [fst (coo_shape X), nfactors self] (hp_a self) (resolved_bp self X) g1")
    show ?thesis
    proof (cases r2)
      case (Inl e2)
      then have "e2 = AssertionError \<or> e2 = OverflowError"
        using k2 by (auto dest: reinit_or_keep_error)
      then show ?thesis unfolding setup_unfold [OF n] using k1 x k2 Inl by auto
    next
      case th: (Inr th)
      show ?thesis
      proof (cases fg)
        case True
        then have "dp self \<noteq> None" using n by simp
        then show ?thesis unfolding setup_unfold [OF n] using k1 x k2 th True
          by (auto split: option.split)
      next
        case False
        have "fst (scHPF_setup ext self X fg reinit clip g) \<noteq> Inl (ValueError msg_genes_unset)"
        proof
          assume "fst (scHPF_setup ext self X fg reinit clip g) = Inl (ValueError msg_genes_unset)"
          from setup_value_error [OF this] False show False by simp
        qed
        then show ?thesis using False by simp
      qed
    qed
  qed
qed

lemma setup_frozen_unset_errors:
  assumes "fg" "dp self \<noteq> None" "eta self = None \<or> beta self = None"
  shows "fst (scHPF_setup ext self X fg reinit clip g) = Inl (ValueError msg_genes_unset)
         \<or> fst (scHPF_setup ext self X fg reinit clip g) = Inl AssertionError
         \<or> fst (scHPF_setup ext self X fg reinit clip g) = Inl OverflowError"
proof -
  have n: "\<not> (dp self = None \<and> fg)" using assms(2) by simp
  from setup_outcome [OF n, of ext X reinit clip g] assms(1,3) show ?thesis
    by (elim disjE exE conjE) auto
qed

lemma setup_estimates_dp:
  assumes h: "dp self = None" "\<not> fg"
  shows "fst (scHPF_setup ext self X fg reinit clip g) \<noteq> Inl (ValueError msg)"
    and "fst (scHPF_setup ext self X fg reinit clip g) = Inr (b, d, rest) \<Longrightarrow>
              d = (if clip \<and> exceeds b (scaled 1000 (scaled (cp self) (mean_var_ratio X 0))) then divided b 1000
                   else scaled (cp self) (mean_var_ratio X 0))"
proof -
  show "fst (scHPF_setup ext self X fg reinit clip g) \<noteq> Inl (ValueError msg)"
  proof
    assume "fst (scHPF_setup ext self X fg reinit clip g) = Inl (ValueError msg)"
    from setup_value_error [OF this] h show False by simp
  qed
next
  assume r: "fst (scHPF_setup ext self X fg reinit clip g) = Inr (b, d, rest)"
  obtain x e th be where rest: "rest = (x, e, th, be)" by (cases rest) auto
  obtain out g' where
    "scHPF_setup ext self X fg reinit clip g = (Inr (b, d, x, e, th, be), out, g')"
    using r rest by (cases "scHPF_setup ext self X fg reinit clip g") auto
  from setup_result_values [OF this]
  have "b = resolved_bp self X" "d = resolved_dp self X clip" by simp_all
  then show "d = (if clip \<and> exceeds b (scaled 1000 (scaled (cp self) (mean_var_ratio X 0))) then divided b 1000
                   else scaled (cp self) (mean_var_ratio X 0))"
    using h(1) by (simp add: resolved_dp_def)
qed

lemma reinit_creates_finite:
  "reinit_or_keep ext True blk ds sp rp g = (Inr x, g1) \<Longrightarrow> \<exists>r. rp = Num r"
  by (auto simp: reinit_or_keep_def random_gamma_factory_def
      split: option.splits prod.splits float64.splits)

text \<open>
  With \<^verbatim>\<open>reinit\<close>, as in every projection and in a fit by default, setup creates
  a block from b' and, unless the gene side is frozen, one from d'; so what it returns is
  finite, and the internal fit goes on to the loop.
\<close>

lemma setup_reinit_finite:
  assumes s: "scHPF_setup ext self X fg True clip g = (Inr (b, d, rest), out, g')"
  shows "\<exists>b1 d1. b = Num b1 \<and> d = Num d1"
proof -
  obtain x e th be where rest: "rest = (x, e, th, be)" by (cases rest) auto
  have n: "\<not> (dp self = None \<and> fg)"
    using s setup_dp_none_frozen [of self ext X True clip g] by auto
  from setup_result_values [OF s [unfolded rest]]
  have v: "b = resolved_bp self X" "d = resolved_dp self X clip" by simp_all
  have "\<exists>x1 g1. reinit_or_keep ext True (xi self) [fst (coo_shape X)] (ap self)
          (resolved_bp self X) g = (Inr x1, g1)"
    using s unfolding setup_unfold [OF n] by (auto split: prod.splits sum.splits)
  then have fb: "\<exists>b1. resolved_bp self X = Num b1"
    by (auto dest: reinit_creates_finite)
  have "\<exists>d1. resolved_dp self X clip = Num d1"
  proof (cases fg)
    case True
    then obtain d0 where "dp self = Some d0" using n by auto
    then show ?thesis by (simp add: resolved_dp_def)
  next
    case False
    then have "\<exists>g2 e1 g3. reinit_or_keep ext True (eta self) [snd (coo_shape X)] (cp self)
          (resolved_dp self X clip) g2 = (Inr e1, g3)"
      using s unfolding setup_unfold [OF n] by (auto split: prod.splits sum.splits)
    then show ?thesis by (auto dest: reinit_creates_finite)
  qed
  with fb v show ?thesis by simp
qed

lemma fit_error:
  "fst (scHPF_fit_internal ext self X vd fg reinit vb mi g) = Inl e \<Longrightarrow>
     fst (scHPF_fit ext self X vd fg reinit vb mi g) = Some e"
  by (cases "scHPF_fit_internal ext self X vd fg reinit vb mi g") (auto simp: scHPF_fit_def)

lemma project_error:
  "fst (scHPF_fit_internal ext self X vd True True True None g) = Inl e \<Longrightarrow>
     fst (scHPF_project ext self X vd k g) = Inl e"
  by (cases "scHPF_fit_internal ext self X vd True True True None g")
    (auto simp: scHPF_project_def)

section \<open>Facts about the loop and the internal fit\<close>

lemma check_step_blocks [simp]:
  "v_eta (fst (check_step ext self X vd vb m t v)) = v_eta v"
  "v_beta (fst (check_step ext self X vd vb m t v)) = v_beta v"
  by (simp_all add: check_step_def Let_def record_loss_eq split: sum.split)

lemma iteration_frozen:
  "v_eta (fst (iteration ext self X vd True reinit vb m b d t v)) = v_eta v"
  "v_beta (fst (iteration ext self X vd True reinit vb m b d t v)) = v_beta v"
  by (simp_all add: iteration_def)

lemma iteration_loss_prefix:
  "\<exists>ys. v_loss (fst (iteration ext self X vd fg reinit vb m b d t v)) = v_loss v @ ys"
  using iteration_shape [OF prod.collapse [symmetric], of ext self X vd fg reinit vb m b d t v]
  by auto

lemma fit_loop_invariant:
  assumes "\<And>t v. P v \<Longrightarrow> P (fst (body t v))"
    and "P v"
  shows "P (fst (fit_loop body ts v))"
  using assms(2)
proof (induction ts arbitrary: v)
  case Nil
  then show ?case by simp
next
  case (Cons t ts)
  obtain v1 r where b: "body t v = (v1, r)" by (cases "body t v")
  have p1: "P v1" using assms(1) [OF Cons.prems, of t] b by simp
  show ?case
  proof (cases "r = Inr Continue")
    case True
    then show ?thesis using b Cons.IH [OF p1] by simp
  next
    case False
    then have "fit_loop body (t # ts) v = (v1, r)"
      using b by (auto split: sum.splits signal.splits)
    then show ?thesis using p1 by simp
  qed
qed

lemma fit_loop_loss_prefix:
  fixes v :: "'r vars"
  shows "\<exists>ys. v_loss (fst (fit_loop (iteration ext self X vd fg reinit vb m b d) ts v)) = v_loss v @ ys"
proof -
  have "\<exists>ys. v_loss (fst (fit_loop (iteration ext self X vd fg reinit vb m b d) ts v)) = v_loss v @ ys"
  proof (rule fit_loop_invariant [where P = "\<lambda>w. \<exists>ys. v_loss w = v_loss v @ ys"])
    fix t and w :: "'r vars" assume "\<exists>ys. v_loss w = v_loss v @ ys"
    then obtain ys where "v_loss w = v_loss v @ ys" ..
    moreover obtain zs where "v_loss (fst (iteration ext self X vd fg reinit vb m b d t w)) = v_loss w @ zs"
      using iteration_loss_prefix by blast
    ultimately show "\<exists>ys. v_loss (fst (iteration ext self X vd fg reinit vb m b d t w)) = v_loss v @ ys"
      by simp
  next
    show "\<exists>ys. v_loss v = v_loss v @ ys" by simp
  qed
  then show ?thesis .
qed

lemma fit_loop_frozen:
  "v_eta (fst (fit_loop (iteration ext self X vd True reinit vb m b d) ts v)) = v_eta v
   \<and> v_beta (fst (fit_loop (iteration ext self X vd True reinit vb m b d) ts v)) = v_beta v"
  by (rule fit_loop_invariant [where P = "\<lambda>w. v_eta w = v_eta v \<and> v_beta w = v_beta v"])
    (simp_all add: iteration_frozen)

lemma fit_internal_cases:
  "(\<exists>e. fst (scHPF_fit_internal ext self X vd fg reinit vb mi g) = Inl e
        \<and> fst (snd (scHPF_fit_internal ext self X vd fg reinit vb mi g)) = self)
   \<or> (\<exists>res out g1 b1 d1 v.
         scHPF_setup ext self X fg reinit True g = (Inr res, out, g1)
         \<and> fst res = Num b1 \<and> fst (snd res) = Num d1
         \<and> v = fst (fit_loop (iteration ext self X vd fg reinit vb
                     (case mi of None \<Rightarrow> min_iter self | Some m \<Rightarrow> m) b1 d1)
                  [0..<nat (max_iter self)] (first_updates self fg b1 d1 res out g1))
         \<and> fst (snd (scHPF_fit_internal ext self X vd fg reinit vb mi g))
               = written_back self fg reinit v
         \<and> (\<forall>r. fst (scHPF_fit_internal ext self X vd fg reinit vb mi g) = Inr r \<longrightarrow>
                r = (b1, d1, v_xi v, v_eta v, v_theta v, v_beta v)))"
proof -
  obtain s out g1 where su: "scHPF_setup ext self X fg reinit True g = (s, out, g1)"
    by (cases "scHPF_setup ext self X fg reinit True g")
  show ?thesis
  proof (cases s)
    case (Inl e)
    then show ?thesis using su by (simp add: scHPF_fit_internal_def)
  next
    case (Inr res)
    show ?thesis
    proof (cases "\<exists>b1 d1. fst res = Num b1 \<and> fst (snd res) = Num d1")
      case True
      then obtain b1 d1 where "fst res = Num b1" "fst (snd res) = Num d1" by blast
      then show ?thesis using su Inr
        by (auto simp: scHPF_fit_internal_def split: prod.split sum.split)
    next
      case False
      then have "fst (scHPF_fit_internal ext self X vd fg reinit vb mi g) = Inl Beyond_reals
          \<and> fst (snd (scHPF_fit_internal ext self X vd fg reinit vb mi g)) = self"
        using su Inr by (auto simp: scHPF_fit_internal_def split: float64.split)
      then show ?thesis by blast
    qed
  qed
qed

lemma first_updates_fields [simp]:
  "v_loss (first_updates self fg b1 d1 res out g) = loss self"
  "v_beta (first_updates self fg b1 d1 res out g) = snd (snd (snd (snd (snd res))))"
  "v_eta (first_updates self True b1 d1 res out g) = fst (snd (snd (snd res)))"
  by (simp_all add: first_updates_def Let_def split: prod.split)

lemma written_back_fields [simp]:
  "loss (written_back self fg reinit v) = v_loss v"
  "eta (written_back self True reinit v) = (if eta self \<noteq> None then Some (v_eta v) else eta self)"
  "beta (written_back self True reinit v)
     = (if beta self \<noteq> None then Some (v_beta v) else beta self)"
  by (simp_all add: written_back_def)

lemma fit_internal_loss:
  "\<exists>ys. loss (fst (snd (scHPF_fit_internal ext self X vd fg reinit vb mi g))) = loss self @ ys"
  using fit_internal_cases [of ext self X vd fg reinit vb mi g]
proof (elim disjE exE conjE)
  fix e
  assume "fst (snd (scHPF_fit_internal ext self X vd fg reinit vb mi g)) = self"
  then show ?thesis by simp
next
  fix res out g1 b1 d1 and v :: "'a vars"
  assume v: "v = fst (fit_loop (iteration ext self X vd fg reinit vb
                     (case mi of None \<Rightarrow> min_iter self | Some m \<Rightarrow> m) b1 d1)
                  [0..<nat (max_iter self)] (first_updates self fg b1 d1 res out g1))"
    and w: "fst (snd (scHPF_fit_internal ext self X vd fg reinit vb mi g))
               = written_back self fg reinit v"
  from fit_loop_loss_prefix [of ext self X vd fg reinit vb _ b1 d1
      "[0..<nat (max_iter self)]" "first_updates self fg b1 d1 res out g1"]
  show ?thesis unfolding w v by simp
qed

lemma fit_instance_loss:
  "loss (fst (snd (scHPF_fit ext self X vd fg reinit vb mi g)))
     = loss (fst (snd (scHPF_fit_internal ext self X vd fg reinit vb mi g)))"
  by (cases "scHPF_fit_internal ext self X vd fg reinit vb mi g")
    (auto simp: scHPF_fit_def split: sum.split)

lemma project_parts:
  "fst (snd (scHPF_project ext self X vd k g))
     = fst (snd (scHPF_fit_internal ext self X vd True True True None g))"
  "fst (scHPF_project ext self X vd k g) = Inr (b, x, th) \<Longrightarrow>
     \<exists>d e be. fst (scHPF_fit_internal ext self X vd True True True None g)
                = Inr (b, d, x, e, th, be)"
  by (cases "scHPF_fit_internal ext self X vd True True True None g";
      auto simp: scHPF_project_def split: sum.splits)+

lemma fit_internal_frozen:
  "eta (fst (snd (scHPF_fit_internal ext self X vd True reinit vb mi g))) = eta self
   \<and> beta (fst (snd (scHPF_fit_internal ext self X vd True reinit vb mi g))) = beta self"
  using fit_internal_cases [of ext self X vd True reinit vb mi g]
proof (elim disjE exE conjE)
  fix e
  assume "fst (snd (scHPF_fit_internal ext self X vd True reinit vb mi g)) = self"
  then show ?thesis by simp
next
  fix res out g1 b1 d1 and v :: "'a vars"
  assume su: "scHPF_setup ext self X True reinit True g = (Inr res, out, g1)"
    and v: "v = fst (fit_loop (iteration ext self X vd True reinit vb
                     (case mi of None \<Rightarrow> min_iter self | Some m \<Rightarrow> m) b1 d1)
                  [0..<nat (max_iter self)] (first_updates self True b1 d1 res out g1))"
    and w: "fst (snd (scHPF_fit_internal ext self X vd True reinit vb mi g))
               = written_back self True reinit v"
  obtain b d x e th be where res: "res = (b, d, x, e, th, be)" by (cases res) auto
  from setup_result_values [OF su [unfolded res]]
  have eb: "eta self = Some e" "beta self = Some be" by simp_all
  from fit_loop_frozen [of ext self X vd reinit vb _ b1 d1
      "[0..<nat (max_iter self)]" "first_updates self True b1 d1 res out g1"]
  have "v_eta v = e" "v_beta v = be" unfolding v by (simp_all add: res)
  then show ?thesis unfolding w using eb by simp
qed

lemma fit_internal_bp:
  assumes "fst (scHPF_fit_internal ext self X vd fg reinit vb mi g) = Inr (b, rest)"
  shows "Num b = resolved_bp self X"
  using fit_internal_cases [of ext self X vd fg reinit vb mi g]
proof (elim disjE exE conjE)
  fix e assume "fst (scHPF_fit_internal ext self X vd fg reinit vb mi g) = Inl e"
  then show ?thesis using assms by simp
next
  fix res out g1 b1 d1 and v :: "'a vars"
  assume su: "scHPF_setup ext self X fg reinit True g = (Inr res, out, g1)"
    and n: "fst res = Num b1"
    and r: "\<forall>r. fst (scHPF_fit_internal ext self X vd fg reinit vb mi g) = Inr r \<longrightarrow>
                r = (b1, d1, v_xi v, v_eta v, v_theta v, v_beta v)"
  obtain b' d x e th be where res: "res = (b', d, x, e, th, be)" by (cases res) auto
  from setup_result_values [OF su [unfolded res]] have "b' = resolved_bp self X" by simp
  moreover from r assms have "b = b1" by simp
  ultimately show ?thesis using n by (simp add: res)
qed

section \<open>Facts about the scorer\<close>

lemma index_in_block: "i < n \<Longrightarrow> k < K \<Longrightarrow> i * K + k < n * (K::nat)"
proof -
  assume a: "i < n" "k < K"
  then have "i * K + k < i * K + K" by simp
  also have "\<dots> = Suc i * K" by simp
  also have "\<dots> \<le> n * K" using a(1) by (intro mult_le_mono1) simp
  finally show ?thesis .
qed

lemma sum_list_map2_times:
  "length xs = length ys \<Longrightarrow>
     sum_list (map2 (*) xs ys) = (\<Sum>k<length xs. xs ! k * (ys ! k :: real))"
  by (simp add: sum_list_sum_nth atLeast0LessThan)

lemma e_x_row:
  assumes "nd_shape (vi_shape blk) = [n, K]"
    and "length (nd_data (vi_shape blk)) = n * K" "length (nd_data (vi_rate blk)) = n * K"
    and "i < n"
  shows "length (nd_row (e_x blk) i) = K"
    and "k < K \<Longrightarrow> nd_row (e_x blk) i ! k
           = nd_data (vi_shape blk) ! (i * K + k) / nd_data (vi_rate blk) ! (i * K + k)"
proof -
  have c: "ncols (e_x blk) = K" using assms(1) by (simp add: ncols_def e_x_def nd_div_def)
  have l: "length (nd_data (e_x blk)) = n * K"
    using assms(2,3) by (simp add: e_x_def nd_div_def)
  have d: "nd_data (e_x blk) = map2 (/) (nd_data (vi_shape blk)) (nd_data (vi_rate blk))"
    by (simp add: e_x_def nd_div_def)
  have le: "i * K + K \<le> n * K"
    using assms(4) mult_le_mono1 [of "Suc i" n K] by simp
  show "length (nd_row (e_x blk) i) = K"
    using le l by (simp add: nd_row_def c)
  assume k: "k < K"
  have lt: "i * K + k < n * K" using index_in_block [OF assms(4) k] .
  let ?zs = "map2 (/) (nd_data (vi_shape blk)) (nd_data (vi_rate blk))"
  have lz: "length ?zs = n * K" using assms(2,3) by simp
  have "nd_row (e_x blk) i ! k = drop (i * K) ?zs ! k"
    using k by (simp add: nd_row_def c d)
  also have "\<dots> = ?zs ! (i * K + k)"
    using assms(2,3,4) by (intro nth_drop) simp
  also have "\<dots> = nd_data (vi_shape blk) ! (i * K + k) / nd_data (vi_rate blk) ! (i * K + k)"
    using lt assms(2,3) by simp
  finally show "nd_row (e_x blk) i ! k
           = nd_data (vi_shape blk) ! (i * K + k) / nd_data (vi_rate blk) ! (i * K + k)" .
qed

lemma numpy_rate:
  assumes "nd_shape (vi_shape th) = [n, K]"
    and "length (nd_data (vi_shape th)) = n * K" "length (nd_data (vi_rate th)) = n * K"
    and "nd_shape (vi_shape be) = [m, K]"
    and "length (nd_data (vi_shape be)) = m * K" "length (nd_data (vi_rate be)) = m * K"
    and "i < n" "j < m"
  shows "sum_list (map2 (*) (nd_row (e_x th) i) (nd_row (e_x be) j)) = spec_rate th be K i j"
proof -
  note t = e_x_row [OF assms(1,2,3,7)]
  note b = e_x_row [OF assms(4,5,6,8)]
  have "sum_list (map2 (*) (nd_row (e_x th) i) (nd_row (e_x be) j))
          = (\<Sum>k<K. nd_row (e_x th) i ! k * nd_row (e_x be) j ! k)"
    using sum_list_map2_times [of "nd_row (e_x th) i" "nd_row (e_x be) j"] t(1) b(1) by simp
  also have "\<dots> = spec_rate th be K i j"
    unfolding spec_rate_def by (rule sum.cong) (simp_all add: t(2) b(2))
  finally show ?thesis .
qed

lemma map2_nth:
  "length xs = length ys \<Longrightarrow> map2 f xs ys = map (\<lambda>q. f (xs ! q) (ys ! q)) [0..<length xs]"
  by (rule nth_equalityI) simp_all

lemma pois_llh_of_pointwise:
  "pois_llh_pointwise ext self X t b = Inr xs \<Longrightarrow> pois_llh ext self X t b = Inr (sum_list xs)"
  by (simp add: pois_llh_def)

lemma spec_rate_pos:
  assumes "nd_shape (vi_shape th) = [n, K]"
    and "length (nd_data (vi_shape th)) = n * K" "length (nd_data (vi_rate th)) = n * K"
    and "nd_shape (vi_shape be) = [m, K]"
    and "length (nd_data (vi_shape be)) = m * K" "length (nd_data (vi_rate be)) = m * K"
    and "all_positive (vi_shape th)" "all_positive (vi_rate th)"
    and "all_positive (vi_shape be)" "all_positive (vi_rate be)"
    and "0 < K" "i < n" "j < m"
  shows "0 < spec_rate th be K i j"
  unfolding spec_rate_def
proof (rule sum_pos)
  show "finite {..<K}" by simp
  show "{..<K} \<noteq> {}" using assms(11) by auto
  fix k assume "k \<in> {..<K}"
  then have k: "k < K" by simp
  have it: "i * K + k < n * K" using index_in_block [OF assms(12) k] .
  have jt: "j * K + k < m * K" using index_in_block [OF assms(13) k] .
  have "0 < nd_data (vi_shape th) ! (i * K + k)" "0 < nd_data (vi_rate th) ! (i * K + k)"
    using assms(7,8) it assms(2,3) by (simp_all add: all_positive_def list_all_length)
  moreover have "0 < nd_data (vi_shape be) ! (j * K + k)" "0 < nd_data (vi_rate be) ! (j * K + k)"
    using assms(9,10) jt assms(5,6) by (simp_all add: all_positive_def list_all_length)
  ultimately show "0 < nd_data (vi_shape th) ! (i * K + k) / nd_data (vi_rate th) ! (i * K + k)
        * (nd_data (vi_shape be) ! (j * K + k) / nd_data (vi_rate be) ! (j * K + k))"
    by simp
qed

section \<open>Evaluation on the small inputs\<close>

lemma upt_0_2: "[0..<2] = [0, Suc 0]"
  by (simp add: numeral_2_eq_2)

lemmas setup_eval = upt_0_2 scHPF_setup_def reinit_or_keep_def random_gamma_factory_def
  HPF_Gamma_init_def all_positive_def mean_var_ratio_def axis_sum_def np_mean_def np_var_def
  mid_externals_def const_array_def scHPF_init_def toy_X_def two_X_def Let_def
  returned_bp_def returned_dp_def list_all_iff np_divide_def scaled_def divided_def
  exceeds_def level_X_def kept_blocks_def toy_block_def toy_config_def

lemmas fit_eval = scHPF_fit_def scHPF_fit_internal_def scHPF_project_def first_updates_def
  written_back_def fill_def scale_rows_def numeral_2_eq_2 projected_bp_def

lemma fitted_once_value:
  "scHPF_fit (scored_externals 1) (toy_config 0 1 1 5) toy_X None False True True None 0 =
     (None,
      \<lparr>nfactors = 1, hp_a = 3 / 10, ap = 1, bp = Some 2, hp_c = 3 / 10, cp = 1, dp = Some 2,
       min_iter = 0, max_iter = 1, check_freq = 1, epsilon = 1 / 1000, better_than_n_ago = 5,
       xi = Some \<lparr>vi_shape = \<lparr>nd_shape = [2], nd_data = [13 / 10, 13 / 10]\<rparr>,
                  vi_rate = \<lparr>nd_shape = [2], nd_data = [33 / 10, 33 / 10]\<rparr>, dims = [2]\<rparr>,
       eta = Some \<lparr>vi_shape = \<lparr>nd_shape = [2], nd_data = [13 / 10, 13 / 10]\<rparr>,
                   vi_rate = \<lparr>nd_shape = [2], nd_data = [33 / 10, 33 / 10]\<rparr>, dims = [2]\<rparr>,
       theta = Some \<lparr>vi_shape = \<lparr>nd_shape = [2, 1], nd_data = [13 / 10, 13 / 10]\<rparr>,
                     vi_rate = \<lparr>nd_shape = [2, 1], nd_data = [1, 1]\<rparr>, dims = [2, 1]\<rparr>,
       beta = Some \<lparr>vi_shape = \<lparr>nd_shape = [2, 1], nd_data = [13 / 10, 13 / 10]\<rparr>,
                    vi_rate = \<lparr>nd_shape = [2, 1], nd_data = [1, 1]\<rparr>, dims = [2, 1]\<rparr>,
       loss = [1]\<rparr>,
      [Iter_msg 0 1 (Finite 100)], 9)"
  by (simp add: setup_eval fit_eval eval_defs)

lemma upt_0_3: "[0..<3] = [0, Suc 0, Suc (Suc 0)]"
  by (simp add: numeral_3_eq_3)

lemma fitted_thrice_value:
  "scHPF_fit (scored_externals 1) (toy_config 0 3 1 5) toy_X None False True True None 0 =
     (None,
      \<lparr>nfactors = 1, hp_a = 3 / 10, ap = 1, bp = Some 2, hp_c = 3 / 10, cp = 1, dp = Some 2,
       min_iter = 0, max_iter = 3, check_freq = 1, epsilon = 1 / 1000, better_than_n_ago = 5,
       xi = Some \<lparr>vi_shape = \<lparr>nd_shape = [2], nd_data = [13 / 10, 13 / 10]\<rparr>,
                  vi_rate = \<lparr>nd_shape = [2], nd_data = [33 / 10, 33 / 10]\<rparr>, dims = [2]\<rparr>,
       eta = Some \<lparr>vi_shape = \<lparr>nd_shape = [2], nd_data = [13 / 10, 13 / 10]\<rparr>,
                   vi_rate = \<lparr>nd_shape = [2], nd_data = [33 / 10, 33 / 10]\<rparr>, dims = [2]\<rparr>,
       theta = Some \<lparr>vi_shape = \<lparr>nd_shape = [2, 1], nd_data = [13 / 10, 13 / 10]\<rparr>,
                     vi_rate = \<lparr>nd_shape = [2, 1], nd_data = [1, 1]\<rparr>, dims = [2, 1]\<rparr>,
       beta = Some \<lparr>vi_shape = \<lparr>nd_shape = [2, 1], nd_data = [13 / 10, 13 / 10]\<rparr>,
                    vi_rate = \<lparr>nd_shape = [2, 1], nd_data = [1, 1]\<rparr>, dims = [2, 1]\<rparr>,
       loss = [1, 1, 1]\<rparr>,
      [Iter_msg 0 1 (Finite 100), Iter_msg 1 1 (Finite 0), Iter_msg 2 1 (Finite 0)], 9)"
  by (simp add: upt_0_3 numeral_3_eq_3 setup_eval fit_eval eval_defs)

section \<open>Construction of a Gamma block\<close>

text \<open>
  C8. Constructing a block from caller-supplied arrays fails with the validation error
  when the two arrays differ in their dimensions or an element of either is not positive;
  when the dimensions agree and every element is positive the construction succeeds,
  stores the two arrays as given, and every stored element is positive.
\<close>

theorem HPF_Gamma_init_validation:
  "(nd_shape vshape \<noteq> nd_shape vrate \<or> (\<exists>x \<in> set (nd_data vshape). x \<le> 0)
      \<or> (\<exists>x \<in> set (nd_data vrate). x \<le> 0)
      \<longrightarrow> HPF_Gamma_init vshape vrate = Inl AssertionError)
   \<and> (nd_shape vshape = nd_shape vrate \<and> (\<forall>x \<in> set (nd_data vshape). 0 < x)
      \<and> (\<forall>x \<in> set (nd_data vrate). 0 < x)
      \<longrightarrow> (\<exists>g. HPF_Gamma_init vshape vrate = Inr g \<and> vi_shape g = vshape \<and> vi_rate g = vrate
            \<and> (\<forall>x \<in> set (nd_data (vi_shape g)). 0 < x)
            \<and> (\<forall>x \<in> set (nd_data (vi_rate g)). 0 < x)))"
  by (auto simp: HPF_Gamma_init_def all_positive_def list_all_iff not_less)

theorem HPF_Gamma_init_validation_witness:
  "HPF_Gamma_init \<lparr>nd_shape = [2], nd_data = [1, 2]\<rparr> \<lparr>nd_shape = [2], nd_data = [3, 0]\<rparr>
     = Inl AssertionError
   \<and> HPF_Gamma_init \<lparr>nd_shape = [2], nd_data = [1, 2]\<rparr> \<lparr>nd_shape = [1, 2], nd_data = [3, 4]\<rparr>
     = Inl AssertionError
   \<and> (\<exists>g. HPF_Gamma_init \<lparr>nd_shape = [2], nd_data = [1, 2]\<rparr> \<lparr>nd_shape = [2], nd_data = [3, 4]\<rparr>
          = Inr g
        \<and> list_all (\<lambda>x. 0 < x) (nd_data (vi_shape g))
        \<and> list_all (\<lambda>x. 0 < x) (nd_data (vi_rate g)))"
  using HPF_Gamma_init_validation
          [of "\<lparr>nd_shape = [2], nd_data = [1, 2]\<rparr>" "\<lparr>nd_shape = [2], nd_data = [3, 0]\<rparr>"]
        HPF_Gamma_init_validation
          [of "\<lparr>nd_shape = [2], nd_data = [1, 2]\<rparr>" "\<lparr>nd_shape = [1, 2], nd_data = [3, 4]\<rparr>"]
        HPF_Gamma_init_validation
          [of "\<lparr>nd_shape = [2], nd_data = [1, 2]\<rparr>" "\<lparr>nd_shape = [2], nd_data = [3, 4]\<rparr>"]
  by (auto simp: list_all_iff)

section \<open>The stopping rules\<close>



text \<open>
  C2, as stated, fails: the degradation rule is evaluated inside the convergence test's
  gate. With a window of 2 and three loss points 1, 2, 3 the current loss is worse than
  every earlier one and the loop goes on, because fewer than 4 loss points exist; with
  five loss points 1, ..., 5 at iteration 20 and a minimum of 30 iterations it goes on as
  well.
\<close>

theorem degradation_stop_ungated_counterexample:
  "snd (iteration (scored_externals 3) (toy_config 0 100 1 2) toy_X None False False True 0 2 2 2
         (toy_vars [1, 2] [Finite 100, Finite 100])) = Inr Continue
   \<and> v_loss (fst (iteration (scored_externals 3) (toy_config 0 100 1 2) toy_X None False False
         True 0 2 2 2 (toy_vars [1, 2] [Finite 100, Finite 100]))) = [1, 2, 3]
   \<and> snd (iteration (scored_externals 5) (toy_config 30 100 5 2) toy_X None False False True 30
         2 2 20 (toy_vars [1, 2, 3, 4] [Finite 100, Finite 100, Finite 50, Finite (100 / 3)]))
       = Inr Continue
   \<and> v_loss (fst (iteration (scored_externals 5) (toy_config 30 100 5 2) toy_X None False False
         True 30 2 2 20
         (toy_vars [1, 2, 3, 4] [Finite 100, Finite 100, Finite 50, Finite (100 / 3)])))
       = [1, 2, 3, 4, 5]"
  by (simp add: eval_defs)

text \<open>
  C2, amended. At an iteration of the fit loop the degradation stop is taken only at a
  convergence check that records a loss, inside the gate of the convergence test (at least
  4 loss points, iteration index at or past the minimum-iteration floor), with at least
  two percent changes recorded in this call, and when convergence is not declared there;
  then more than \<^verbatim>\<open>better_than_n_ago\<close> loss points exist, the window is nonzero and
  the current loss magnitude is larger than the immediately preceding one. Conversely,
  inside the gate, with at least two percent changes recorded in this call, convergence
  not declared, a window of at least 2 and more loss points than the window, the stop is
  taken when the current loss magnitude is larger than each of the
  \<^verbatim>\<open>better_than_n_ago\<close> loss magnitudes recorded before it. Inside the gate with
  fewer than two percent changes recorded in this call (the history holds losses of an
  earlier call) the check raises an index error and no stop is taken.
\<close>

theorem degradation_stop_gated:
  assumes "iteration ext self X vd fg reinit vb m bp1 dp1 t v = (v', r)"
  shows "(r = Inr Getting_worse \<longrightarrow>
            check_freq self \<noteq> 0 \<and> int t mod check_freq self = 0
            \<and> length (v_loss v') = Suc (length (v_loss v))
            \<and> 4 \<le> length (v_loss v') \<and> m \<le> int t \<and> 2 \<le> length (v_pct_change v')
            \<and> \<not> (small (epsilon self) (v_pct_change v' ! (length (v_pct_change v') - 1))
                   \<and> small (epsilon self) (v_pct_change v' ! (length (v_pct_change v') - 2))
                   \<and> \<not> (\<bar>v_loss v' ! (length (v_loss v') - 3)\<bar> < \<bar>v_loss v' ! (length (v_loss v') - 2)\<bar>
                          \<and> \<bar>v_loss v' ! (length (v_loss v') - 2)\<bar> > \<bar>v_loss v' ! (length (v_loss v') - 1)\<bar>))
            \<and> better_than_n_ago self < int (length (v_loss v')) \<and> better_than_n_ago self \<noteq> 0
            \<and> \<bar>v_loss v' ! (length (v_loss v') - 2)\<bar> < \<bar>v_loss v' ! (length (v_loss v') - 1)\<bar>)
       \<and> (check_freq self \<noteq> 0 \<and> int t mod check_freq self = 0
            \<and> length (v_loss v') = Suc (length (v_loss v))
            \<and> 4 \<le> length (v_loss v') \<and> m \<le> int t \<and> 2 \<le> length (v_pct_change v')
            \<and> \<not> (small (epsilon self) (v_pct_change v' ! (length (v_pct_change v') - 1))
                   \<and> small (epsilon self) (v_pct_change v' ! (length (v_pct_change v') - 2))
                   \<and> \<not> (\<bar>v_loss v' ! (length (v_loss v') - 3)\<bar> < \<bar>v_loss v' ! (length (v_loss v') - 2)\<bar>
                          \<and> \<bar>v_loss v' ! (length (v_loss v') - 2)\<bar> > \<bar>v_loss v' ! (length (v_loss v') - 1)\<bar>))
            \<and> 2 \<le> better_than_n_ago self \<and> better_than_n_ago self < int (length (v_loss v'))
            \<and> (\<forall>k. 1 \<le> k \<and> int k \<le> better_than_n_ago self \<longrightarrow>
                   \<bar>v_loss v' ! (length (v_loss v') - 1 - k)\<bar> < \<bar>v_loss v' ! (length (v_loss v') - 1)\<bar>)
          \<longrightarrow> r = Inr Getting_worse)
       \<and> (check_freq self \<noteq> 0 \<and> int t mod check_freq self = 0
            \<and> length (v_loss v') = Suc (length (v_loss v))
            \<and> 4 \<le> length (v_loss v') \<and> m \<le> int t \<and> length (v_pct_change v') < 2
          \<longrightarrow> r = Inl IndexError)"
  using iteration_shape [OF assms]
proof (elim disjE conjE exE)
  assume "v_loss v' = v_loss v" "r \<noteq> Inr Getting_worse"
  then show ?thesis by simp
next
  fix cur p
  assume a: "check_freq self \<noteq> 0" "int t mod check_freq self = 0"
    "v_loss v' = v_loss v @ [cur]"
    and c: "case check_convergence (epsilon self) (better_than_n_ago self) m t
                           (v_loss v') (v_pct_change v') of
                      Inr Continue \<Rightarrow> r \<noteq> Inr Converged \<and> r \<noteq> Inr Getting_worse
                    | x \<Rightarrow> r = x"
  have eq: "(r = Inr Getting_worse) = (check_convergence (epsilon self) (better_than_n_ago self) m t
                           (v_loss v') (v_pct_change v') = Inr Getting_worse)"
    using c by (auto split: sum.splits signal.splits)
  have len: "length (v_loss v') = Suc (length (v_loss v))"
    using a(3) by simp
  define n where "n = nat (better_than_n_ago self)"
  have idx: "py_get (v_loss v') (- better_than_n_ago self)
               = Inr (v_loss v' ! (length (v_loss v') - 1 - (n - 1)))"
    if "2 \<le> better_than_n_ago self" "better_than_n_ago self < int (length (v_loss v'))"
  proof -
    from that have "n \<le> length (v_loss v')" "0 < n" and bn: "better_than_n_ago self = int n"
      by (simp_all add: n_def)
    with py_get_last [of n "v_loss v'"]
    have "py_get (v_loss v') (- int n) = Inr (v_loss v' ! (length (v_loss v') - n))"
      by simp
    moreover have "length (v_loss v') - n = length (v_loss v') - 1 - (n - 1)"
      using \<open>0 < n\<close> by simp
    ultimately show ?thesis
      unfolding bn by simp
  qed
  show ?thesis
  proof (intro conjI; rule impI)
    assume "r = Inr Getting_worse"
    then show "check_freq self \<noteq> 0 \<and> int t mod check_freq self = 0
            \<and> length (v_loss v') = Suc (length (v_loss v))
            \<and> 4 \<le> length (v_loss v') \<and> m \<le> int t \<and> 2 \<le> length (v_pct_change v')
            \<and> \<not> (small (epsilon self) (v_pct_change v' ! (length (v_pct_change v') - 1))
                   \<and> small (epsilon self) (v_pct_change v' ! (length (v_pct_change v') - 2))
                   \<and> \<not> (\<bar>v_loss v' ! (length (v_loss v') - 3)\<bar> < \<bar>v_loss v' ! (length (v_loss v') - 2)\<bar>
                          \<and> \<bar>v_loss v' ! (length (v_loss v') - 2)\<bar> > \<bar>v_loss v' ! (length (v_loss v') - 1)\<bar>))
            \<and> better_than_n_ago self < int (length (v_loss v')) \<and> better_than_n_ago self \<noteq> 0
            \<and> \<bar>v_loss v' ! (length (v_loss v') - 2)\<bar> < \<bar>v_loss v' ! (length (v_loss v') - 1)\<bar>"
      unfolding eq check_convergence_worse_iff using a(1,2) len by blast
  next
    assume h: "check_freq self \<noteq> 0 \<and> int t mod check_freq self = 0
            \<and> length (v_loss v') = Suc (length (v_loss v))
            \<and> 4 \<le> length (v_loss v') \<and> m \<le> int t \<and> 2 \<le> length (v_pct_change v')
            \<and> \<not> (small (epsilon self) (v_pct_change v' ! (length (v_pct_change v') - 1))
                   \<and> small (epsilon self) (v_pct_change v' ! (length (v_pct_change v') - 2))
                   \<and> \<not> (\<bar>v_loss v' ! (length (v_loss v') - 3)\<bar> < \<bar>v_loss v' ! (length (v_loss v') - 2)\<bar>
                          \<and> \<bar>v_loss v' ! (length (v_loss v') - 2)\<bar> > \<bar>v_loss v' ! (length (v_loss v') - 1)\<bar>))
            \<and> 2 \<le> better_than_n_ago self \<and> better_than_n_ago self < int (length (v_loss v'))
            \<and> (\<forall>k. 1 \<le> k \<and> int k \<le> better_than_n_ago self \<longrightarrow>
                   \<bar>v_loss v' ! (length (v_loss v') - 1 - k)\<bar> < \<bar>v_loss v' ! (length (v_loss v') - 1)\<bar>)"
    then have n2: "2 \<le> better_than_n_ago self" "better_than_n_ago self < int (length (v_loss v'))"
      by simp_all
    from h have all: "\<And>k. 1 \<le> k \<Longrightarrow> int k \<le> better_than_n_ago self \<Longrightarrow>
        \<bar>v_loss v' ! (length (v_loss v') - 1 - k)\<bar> < \<bar>v_loss v' ! (length (v_loss v') - 1)\<bar>"
      by blast
    have k1: "\<bar>v_loss v' ! (length (v_loss v') - 1 - (n - 1))\<bar> < \<bar>v_loss v' ! (length (v_loss v') - 1)\<bar>"
      using all [of "n - 1"] n2 by (simp add: n_def)
    have k2: "\<bar>v_loss v' ! (length (v_loss v') - 2)\<bar> < \<bar>v_loss v' ! (length (v_loss v') - 1)\<bar>"
      using all [of 1] n2 by (simp add: numeral_2_eq_2)
    show "r = Inr Getting_worse"
      unfolding eq check_convergence_worse_iff using h k1 k2 idx [OF n2] by auto
  next
    assume "check_freq self \<noteq> 0 \<and> int t mod check_freq self = 0
            \<and> length (v_loss v') = Suc (length (v_loss v))
            \<and> 4 \<le> length (v_loss v') \<and> m \<le> int t \<and> length (v_pct_change v') < 2"
    then have "check_convergence (epsilon self) (better_than_n_ago self) m t
                 (v_loss v') (v_pct_change v') = Inl IndexError"
      by (intro check_convergence_short) simp_all
    then show "r = Inl IndexError" using c by simp
  qed
qed

theorem degradation_stop_gated_witness:
  "snd (iteration (scored_externals 5) (toy_config 0 100 1 2) toy_X None False False True 0 2 2 4
         (toy_vars [1, 2, 3, 4] [Finite 100, Finite 100, Finite 50, Finite (100 / 3)]))
     = Inr Getting_worse
   \<and> v_loss (fst (iteration (scored_externals 5) (toy_config 0 100 1 2) toy_X None False False
         True 0 2 2 4
         (toy_vars [1, 2, 3, 4] [Finite 100, Finite 100, Finite 50, Finite (100 / 3)])))
     = [1, 2, 3, 4, 5]
   \<and> snd (iteration (scored_externals 5) (toy_config 0 100 1 2) toy_X None False False True 0
           2 2 0 (toy_vars [1, 2, 3, 4] []))
     = Inl IndexError"
  using degradation_stop_gated [OF prod.collapse [symmetric],
      of "scored_externals 5" "toy_config 0 100 1 2" toy_X None False False True 0 2 2 4
         "toy_vars [1, 2, 3, 4] [Finite 100, Finite 100, Finite 50, Finite (100 / 3)]"]
    degradation_stop_gated [OF prod.collapse [symmetric],
      of "scored_externals 5" "toy_config 0 100 1 2" toy_X None False False True 0 2 2 0
         "toy_vars [1, 2, 3, 4] []"]
  by (simp add: eval_defs)

section \<open>Hyperparameter setup\<close>

text \<open>
  C4, as stated, fails: a rate hyperparameter d' that the caller supplies is never
  clipped. With b' = 2000 and d' = 1 both supplied, setup returns d' = 1 and prints
  nothing, although b' exceeds 1000 times d'.
\<close>

theorem clip_on_supplied_dp_counterexample:
  "returned_bp (fst (scHPF_setup mid_externals
       (scHPF_init 1 0.3 1 (Some 2000) 0.3 1 (Some 1) 0 10 1 0.001 5 None None None None None)
       toy_X False True True 0)) = Some (Num 2000)
   \<and> returned_dp (fst (scHPF_setup mid_externals
       (scHPF_init 1 0.3 1 (Some 2000) 0.3 1 (Some 1) 0 10 1 0.001 5 None None None None None)
       toy_X False True True 0)) = Some (Num 1)
   \<and> fst (snd (scHPF_setup mid_externals
       (scHPF_init 1 0.3 1 (Some 2000) 0.3 1 (Some 1) 0 10 1 0.001 5 None None None None None)
       toy_X False True True 0)) = []"
  by (simp add: setup_eval)

text \<open>
  C4, amended. When setup returns, b' is the supplied value or else the estimate from
  the row sums. If d' was not supplied it is estimated from the column sums, and then,
  with clipping enabled (as every fit has it), if b' exceeds 1000 times the estimate d'
  is exactly b'/1000 and the adjustment is printed; if b' does not exceed 1000 times the
  estimate, d' is the estimate and nothing is printed. A supplied d' is returned
  unchanged and nothing is printed. The estimates and the comparison are those of
  \<^verbatim>\<open>float64\<close>: over axis sums of variance zero an estimate is infinite or not a
  number, and an estimate of d' that is plus infinity or not a number is never clipped.
  For finite b' and a finite estimate e of d' the comparison is \<open>1000 * e < b'\<close> and the
  clipped value is the real quotient. In particular estimates b' = 2000 and d' = 1 give
  d' = 2, estimates b' = 5 and d' = 1 give no adjustment, and equal positive column sums
  give plus infinity as the estimate of d' and no adjustment.
\<close>

theorem setup_clips_estimated_dp:
  assumes "scHPF_setup ext self X fg reinit clip g
             = (Inr (bp1, dp1, xi1, eta1, theta1, beta1), out, g')"
  shows "bp1 = (case bp self of Some b \<Rightarrow> Num b
                | None \<Rightarrow> scaled (ap self) (mean_var_ratio X 1))
     \<and> (dp self = None \<and> clip
          \<and> exceeds bp1 (scaled 1000 (scaled (cp self) (mean_var_ratio X 0)))
          \<longrightarrow> dp1 = divided bp1 1000
              \<and> out = [Clipping_dp (scaled (cp self) (mean_var_ratio X 0)) (divided bp1 1000)])
     \<and> (dp self = None
          \<and> \<not> (clip \<and> exceeds bp1 (scaled 1000 (scaled (cp self) (mean_var_ratio X 0))))
          \<longrightarrow> dp1 = scaled (cp self) (mean_var_ratio X 0) \<and> out = [])
     \<and> (\<forall>d. dp self = Some d \<longrightarrow> dp1 = Num d \<and> out = [])
     \<and> (\<forall>b e. dp self = None \<and> clip \<and> bp1 = Num b
            \<and> scaled (cp self) (mean_var_ratio X 0) = Num e \<and> 1000 * e < b
          \<longrightarrow> dp1 = Num (b / 1000) \<and> out = [Clipping_dp (Num e) (Num (b / 1000))])
     \<and> (\<forall>b e. dp self = None \<and> bp1 = Num b
            \<and> scaled (cp self) (mean_var_ratio X 0) = Num e \<and> \<not> 1000 * e < b
          \<longrightarrow> dp1 = Num e \<and> out = [])
     \<and> (dp self = None
          \<and> (scaled (cp self) (mean_var_ratio X 0) = Plus_inf
              \<or> scaled (cp self) (mean_var_ratio X 0) = Not_a_number)
          \<longrightarrow> dp1 = scaled (cp self) (mean_var_ratio X 0) \<and> out = [])"
proof -
  let ?est = "scaled (cp self) (mean_var_ratio X 0)"
  from setup_result_values [OF assms]
  have b: "bp1 = resolved_bp self X" and d: "dp1 = resolved_dp self X clip"
    and o: "out = setup_output self X clip"
    by simp_all
  have fin: "exceeds (Num x) (scaled 1000 (Num y)) = (1000 * y < x)" for x y
    by (simp add: exceeds_def scaled_def)
  have quot: "divided (Num x) 1000 = Num (x / 1000)" for x
    by (simp add: divided_def np_divide_def)
  have inf: "\<not> exceeds z (scaled 1000 Plus_inf)" "\<not> exceeds z (scaled 1000 Not_a_number)" for z
    by (simp_all add: exceeds_def scaled_def split: float64.split)
  have 1: "bp1 = (case bp self of Some b \<Rightarrow> Num b
                | None \<Rightarrow> scaled (ap self) (mean_var_ratio X 1))"
    unfolding b by (simp add: resolved_bp_def split: option.split)
  have 2: "dp self = None \<and> clip \<and> exceeds bp1 (scaled 1000 ?est)
          \<longrightarrow> dp1 = divided bp1 1000 \<and> out = [Clipping_dp ?est (divided bp1 1000)]"
    unfolding d o b [symmetric] resolved_dp_def setup_output_def using b by simp
  have 3: "dp self = None \<and> \<not> (clip \<and> exceeds bp1 (scaled 1000 ?est))
          \<longrightarrow> dp1 = ?est \<and> out = []"
    unfolding d o resolved_dp_def setup_output_def using b by auto
  have 4: "\<forall>d. dp self = Some d \<longrightarrow> dp1 = Num d \<and> out = []"
    unfolding d o resolved_dp_def setup_output_def by simp
  have 5: "\<forall>b e. dp self = None \<and> clip \<and> bp1 = Num b \<and> ?est = Num e \<and> 1000 * e < b
          \<longrightarrow> dp1 = Num (b / 1000) \<and> out = [Clipping_dp (Num e) (Num (b / 1000))]"
    using 2 by (auto simp: fin quot)
  have 6: "\<forall>b e. dp self = None \<and> bp1 = Num b \<and> ?est = Num e \<and> \<not> 1000 * e < b
          \<longrightarrow> dp1 = Num e \<and> out = []"
    using 3 by (auto simp: fin)
  have 7: "dp self = None \<and> (?est = Plus_inf \<or> ?est = Not_a_number)
          \<longrightarrow> dp1 = ?est \<and> out = []"
    using 3 inf by auto
  from 1 2 3 4 5 6 7 show ?thesis by blast
qed

theorem setup_clips_estimated_dp_witness:
  "returned_bp (fst (scHPF_setup mid_externals
       (scHPF_init 1 0.3 2000 None 0.3 1 None 0 10 1 0.001 5 None None None None None)
       two_X False True True 0)) = Some (Num 2000)
   \<and> returned_dp (fst (scHPF_setup mid_externals
       (scHPF_init 1 0.3 2000 None 0.3 1 None 0 10 1 0.001 5 None None None None None)
       two_X False True True 0)) = Some (Num 2)
   \<and> fst (snd (scHPF_setup mid_externals
       (scHPF_init 1 0.3 2000 None 0.3 1 None 0 10 1 0.001 5 None None None None None)
       two_X False True True 0)) = [Clipping_dp (Num 1) (Num 2)]
   \<and> returned_bp (fst (scHPF_setup mid_externals
       (scHPF_init 1 0.3 5 None 0.3 1 None 0 10 1 0.001 5 None None None None None)
       two_X False True True 0)) = Some (Num 5)
   \<and> returned_dp (fst (scHPF_setup mid_externals
       (scHPF_init 1 0.3 5 None 0.3 1 None 0 10 1 0.001 5 None None None None None)
       two_X False True True 0)) = Some (Num 1)
   \<and> fst (snd (scHPF_setup mid_externals
       (scHPF_init 1 0.3 5 None 0.3 1 None 0 10 1 0.001 5 None None None None None)
       two_X False True True 0)) = []
   \<and> returned_bp (fst (scHPF_setup mid_externals (kept_blocks (toy_config 0 1 1 5))
       level_X False False True 0)) = Some (Num 1)
   \<and> returned_dp (fst (scHPF_setup mid_externals (kept_blocks (toy_config 0 1 1 5))
       level_X False False True 0)) = Some Plus_inf
   \<and> fst (snd (scHPF_setup mid_externals (kept_blocks (toy_config 0 1 1 5))
       level_X False False True 0)) = []"
proof -
  let ?m = "scHPF_init 1 0.3 2000 None 0.3 1 None 0 10 1 0.001 5 None None None None None"
  let ?m' = "scHPF_init 1 0.3 5 None 0.3 1 None 0 10 1 0.001 5 None None None None None"
  let ?k = "kept_blocks (toy_config 0 1 1 5)"
  have r: "scaled (cp ?m) (mean_var_ratio two_X 0) = Num 1"
    "scaled (ap ?m) (mean_var_ratio two_X 1) = Num 2000"
    "scaled (cp ?m') (mean_var_ratio two_X 0) = Num 1"
    "scaled (ap ?m') (mean_var_ratio two_X 1) = Num 5"
    "scaled (cp ?k) (mean_var_ratio level_X 0) = Plus_inf"
    "scaled (ap ?k) (mean_var_ratio level_X 1) = Num 1"
    "dp ?m = None" "dp ?m' = None" "bp ?m = None" "bp ?m' = None" "dp ?k = None" "bp ?k = None"
    by (simp_all add: setup_eval)
  have "\<exists>b d x e th be out g'. scHPF_setup mid_externals ?m two_X False True True 0
          = (Inr (b, d, x, e, th, be), out, g')"
    by (simp add: setup_eval)
  then obtain b d x e th be out g' where
    s: "scHPF_setup mid_externals ?m two_X False True True 0 = (Inr (b, d, x, e, th, be), out, g')"
    by blast
  have "\<exists>b d x e th be out g'. scHPF_setup mid_externals ?m' two_X False True True 0
          = (Inr (b, d, x, e, th, be), out, g')"
    by (simp add: setup_eval)
  then obtain b' d' x' e' th' be' out' g'' where
    s': "scHPF_setup mid_externals ?m' two_X False True True 0
           = (Inr (b', d', x', e', th', be'), out', g'')"
    by blast
  have "\<exists>b d x e th be out g'. scHPF_setup mid_externals ?k level_X False False True 0
          = (Inr (b, d, x, e, th, be), out, g')"
    by (simp add: setup_eval)
  then obtain b2 d2 x2 e2 th2 be2 out2 g2 where
    s2: "scHPF_setup mid_externals ?k level_X False False True 0
           = (Inr (b2, d2, x2, e2, th2, be2), out2, g2)"
    by blast
  from setup_clips_estimated_dp [OF s] setup_clips_estimated_dp [OF s']
    setup_clips_estimated_dp [OF s2]
  show ?thesis
    unfolding s s' s2 r by (auto simp: returned_bp_def returned_dp_def)
qed

text \<open>
  C7, as stated, fails: setup also raises a configuration error when d' is available,
  namely when the gene side is frozen and a gene block is missing; and with the gene side
  not frozen and d' unavailable a call can still fail, by the assertion of a block's
  constructor (here the shape prior c' is 0).
\<close>

theorem setup_value_error_counterexample:
  "fst (scHPF_setup mid_externals
       (scHPF_init 1 0.3 1 (Some 2) 0.3 1 (Some 1) 0 10 1 0.001 5 None None None None None)
       toy_X True True True 0) = Inl (ValueError msg_genes_unset)
   \<and> dp (scHPF_init 1 0.3 1 (Some 2) 0.3 1 (Some 1) 0 10 1 0.001 5 None None None None None)
       = Some 1
   \<and> fst (scHPF_setup mid_externals
       (scHPF_init 1 0.3 1 None 0.3 0 None 0 10 1 0.001 5 None None None None None)
       toy_X False True True 0) = Inl AssertionError"
  by (simp add: setup_eval)

text \<open>
  C7, amended. Setup raises the missing-d' configuration error exactly when d' is
  unavailable and the gene side is frozen. It raises the configuration error for missing
  gene blocks exactly when the gene side is frozen, d' is available, the gene-capacity or
  the gene-loading block is missing, and the xi and the theta block have been created or
  kept without an error before; with the gene side frozen, d' available and a gene block
  missing, setup always fails, with that configuration error or with the assertion or
  overflow error that creating the xi or the theta block raised first. Any configuration
  error of setup has the gene side frozen and d', the gene-capacity block or the
  gene-loading block missing. When the gene side is not frozen and d' is unavailable,
  setup raises no configuration error, and when it returns, d' is the estimate from the
  column sums, or b'/1000 when clipping is enabled and b' exceeds 1000 times the estimate
  (the estimate and the comparison being those of \<^verbatim>\<open>float64\<close>).
\<close>

theorem setup_value_errors:
  "((fst (scHPF_setup ext self X fg reinit clip g) = Inl (ValueError msg_dp_none))
       = (dp self = None \<and> fg))
   \<and> ((fst (scHPF_setup ext self X fg reinit clip g) = Inl (ValueError msg_genes_unset))
       = (fg \<and> dp self \<noteq> None \<and> (eta self = None \<or> beta self = None)
          \<and> (\<exists>x g1 th g2.
                reinit_or_keep ext reinit (xi self) [fst (coo_shape X)] (ap self)
                  (case bp self of Some b \<Rightarrow> Num b
                   | None \<Rightarrow> scaled (ap self) (mean_var_ratio X 1)) g = (Inr x, g1)
                \<and> reinit_or_keep ext reinit (theta self) [fst (coo_shape X), nfactors self]
                    (hp_a self)
                    (case bp self of Some b \<Rightarrow> Num b
                     | None \<Rightarrow> scaled (ap self) (mean_var_ratio X 1)) g1 = (Inr th, g2))))
   \<and> (fg \<and> dp self \<noteq> None \<and> (eta self = None \<or> beta self = None) \<longrightarrow>
        fst (scHPF_setup ext self X fg reinit clip g) = Inl (ValueError msg_genes_unset)
        \<or> fst (scHPF_setup ext self X fg reinit clip g) = Inl AssertionError
        \<or> fst (scHPF_setup ext self X fg reinit clip g) = Inl OverflowError)
   \<and> ((\<exists>msg. fst (scHPF_setup ext self X fg reinit clip g) = Inl (ValueError msg))
        \<longrightarrow> fg \<and> (dp self = None \<or> eta self = None \<or> beta self = None))
   \<and> (dp self = None \<and> \<not> fg \<longrightarrow>
        (\<forall>msg. fst (scHPF_setup ext self X fg reinit clip g) \<noteq> Inl (ValueError msg))
        \<and> (\<forall>b d rest. fst (scHPF_setup ext self X fg reinit clip g) = Inr (b, d, rest) \<longrightarrow>
              d = (if clip \<and> exceeds b (scaled 1000 (scaled (cp self) (mean_var_ratio X 0)))
                   then divided b 1000
                   else scaled (cp self) (mean_var_ratio X 0))))"
proof -
  let ?S = "fst (scHPF_setup ext self X fg reinit clip g)"
  have b: "(case bp self of Some b \<Rightarrow> Num b | None \<Rightarrow> scaled (ap self) (mean_var_ratio X 1))
             = resolved_bp self X"
    by (simp add: resolved_bp_def split: option.split)
  have 1: "(?S = Inl (ValueError msg_dp_none)) = (dp self = None \<and> fg)"
    by (rule setup_dp_error_iff)
  have 2: "(?S = Inl (ValueError msg_genes_unset))
       = (fg \<and> dp self \<noteq> None \<and> (eta self = None \<or> beta self = None)
          \<and> (\<exists>x g1 th g2.
                reinit_or_keep ext reinit (xi self) [fst (coo_shape X)] (ap self)
                  (case bp self of Some b \<Rightarrow> Num b
                   | None \<Rightarrow> scaled (ap self) (mean_var_ratio X 1)) g = (Inr x, g1)
                \<and> reinit_or_keep ext reinit (theta self) [fst (coo_shape X), nfactors self]
                    (hp_a self)
                    (case bp self of Some b \<Rightarrow> Num b
                     | None \<Rightarrow> scaled (ap self) (mean_var_ratio X 1)) g1 = (Inr th, g2)))"
    unfolding b by (rule setup_genes_error_iff)
  have 3: "fg \<and> dp self \<noteq> None \<and> (eta self = None \<or> beta self = None) \<longrightarrow>
        ?S = Inl (ValueError msg_genes_unset) \<or> ?S = Inl AssertionError
        \<or> ?S = Inl OverflowError"
    using setup_frozen_unset_errors [of fg self ext X reinit clip g] by blast
  have 4: "(\<exists>msg. ?S = Inl (ValueError msg))
        \<longrightarrow> fg \<and> (dp self = None \<or> eta self = None \<or> beta self = None)"
    using setup_value_error_frozen [of ext self X fg reinit clip g] by blast
  have 5: "dp self = None \<and> \<not> fg \<longrightarrow>
        (\<forall>msg. ?S \<noteq> Inl (ValueError msg))
        \<and> (\<forall>b d rest. ?S = Inr (b, d, rest) \<longrightarrow>
              d = (if clip \<and> exceeds b (scaled 1000 (scaled (cp self) (mean_var_ratio X 0)))
                   then divided b 1000
                   else scaled (cp self) (mean_var_ratio X 0)))"
    using setup_estimates_dp [of self fg ext X reinit clip g] by (intro conjI impI allI) auto
  from 1 2 3 4 5 show ?thesis by (intro conjI)
qed

theorem setup_value_errors_witness:
  "fst (scHPF_setup mid_externals
       (scHPF_init 1 0.3 1 (Some 2) 0.3 1 None 0 10 1 0.001 5 None None None None None)
       toy_X True True True 0) = Inl (ValueError msg_dp_none)
   \<and> fst (scHPF_setup mid_externals
       (scHPF_init 1 0.3 1 (Some 2) 0.3 1 (Some 1) 0 10 1 0.001 5 None None None None None)
       toy_X True True True 0) = Inl (ValueError msg_genes_unset)
   \<and> fst (scHPF_setup mid_externals
       (scHPF_init 1 0 1 (Some 2) 0.3 1 (Some 1) 0 10 1 0.001 5 None None None None None)
       toy_X True True True 0) = Inl AssertionError
   \<and> returned_dp (fst (scHPF_setup mid_externals
       (scHPF_init 1 0.3 1 None 0.3 1 None 0 10 1 0.001 5 None None None None None)
       toy_X False True True 0)) = Some (Num 2)"
  using setup_value_errors [of mid_externals
       "scHPF_init 1 0.3 1 (Some 2) 0.3 1 None 0 10 1 0.001 5 None None None None None"
       toy_X True True True 0]
    setup_value_errors [of mid_externals
       "scHPF_init 1 0.3 1 (Some 2) 0.3 1 (Some 1) 0 10 1 0.001 5 None None None None None"
       toy_X True True True 0]
    setup_value_errors [of mid_externals
       "scHPF_init 1 0 1 (Some 2) 0.3 1 (Some 1) 0 10 1 0.001 5 None None None None None"
       toy_X True True True 0]
    setup_value_errors [of mid_externals
       "scHPF_init 1 0.3 1 None 0.3 1 None 0 10 1 0.001 5 None None None None None"
       toy_X False True True 0]
  by (simp add: setup_eval)

section \<open>Construction of the estimator\<close>

text \<open>
  C9. Whatever is passed to the constructor, also for its parameters xi, theta, eta,
  beta and loss, the instance has no xi, eta, theta and beta block and an empty loss
  history; so on a newly constructed instance every fit with the gene side frozen, and
  every projection, raises.
\<close>

theorem constructor_discards_blocks:
  "xi (scHPF_init K a0 ap0 bp0 c0 cp0 dp0 mn mx cf eps n x0 th0 e0 b0 l0) = None
   \<and> eta (scHPF_init K a0 ap0 bp0 c0 cp0 dp0 mn mx cf eps n x0 th0 e0 b0 l0) = None
   \<and> theta (scHPF_init K a0 ap0 bp0 c0 cp0 dp0 mn mx cf eps n x0 th0 e0 b0 l0) = None
   \<and> beta (scHPF_init K a0 ap0 bp0 c0 cp0 dp0 mn mx cf eps n x0 th0 e0 b0 l0) = None
   \<and> loss (scHPF_init K a0 ap0 bp0 c0 cp0 dp0 mn mx cf eps n x0 th0 e0 b0 l0) = []
   \<and> (\<exists>e. fst (scHPF_fit ext (scHPF_init K a0 ap0 bp0 c0 cp0 dp0 mn mx cf eps n x0 th0 e0 b0 l0)
                 X vd True reinit vb mi g) = Some e)
   \<and> (\<exists>e. fst (scHPF_project ext (scHPF_init K a0 ap0 bp0 c0 cp0 dp0 mn mx cf eps n x0 th0 e0 b0 l0)
                 X vd k g) = Inl e)"
proof -
  define m where "m = scHPF_init K a0 ap0 bp0 c0 cp0 dp0 mn mx cf eps n x0 th0 e0 b0 l0"
  have f: "xi m = None" "eta m = None" "theta m = None" "beta m = None" "loss m = []"
    by (simp_all add: m_def scHPF_init_def)
  obtain e1 where "fst (scHPF_setup ext m X True reinit True g) = Inl e1"
    using setup_frozen_unset [of m ext X reinit True g] f by auto
  then have "fst (scHPF_fit ext m X vd True reinit vb mi g) = Some e1"
    by (intro fit_error fit_internal_setup_error(1))
  moreover
  obtain e2 where "fst (scHPF_setup ext m X True True True g) = Inl e2"
    using setup_frozen_unset [of m ext X True True g] f by auto
  then have "fst (scHPF_project ext m X vd k g) = Inl e2"
    by (intro project_error fit_internal_setup_error(1))
  ultimately show ?thesis using f unfolding m_def by blast
qed

section \<open>Projection\<close>

text \<open>
  C10. The result of a projection (what it returns or raises, the instance, the printed
  lines and the random source after it) does not depend on its parameter
  \<^verbatim>\<open>min_iter\<close>: the internal fit is called without it, and so runs with the minimum
  number of iterations configured on the instance.
\<close>

theorem project_ignores_min_iter:
  "scHPF_project ext self X vd k1 g = scHPF_project ext self X vd k2 g
   \<and> scHPF_fit_internal ext self X vd True True True None g
       = scHPF_fit_internal ext self X vd True True True (Some (min_iter self)) g"
  by (simp add: scHPF_project_def scHPF_fit_internal_def
      split: prod.split sum.split float64.split)

text \<open>
  C5, as stated, fails in its last part: on a fitted instance the b' that project
  returns is not newly estimated. After a fit that set b' = 2, a projection of data whose
  row sums give the estimate 1 returns b' = 2.
\<close>

theorem project_returns_stored_bp_counterexample:
  "projected_bp (fst (scHPF_project (scored_externals 1) fitted_once two_X None 10 9)) = Some 2
   \<and> bp fitted_once = Some 2
   \<and> scaled (ap fitted_once) (mean_var_ratio two_X 1) = Num 1"
  unfolding fitted_once_def fitted_once_value
  by (simp add: setup_eval fit_eval eval_defs)

text \<open>
  C5, amended. For every call of project the gene-capacity (eta) and gene-loading
  (beta) blocks of the instance are the same before and after the call, whatever the call
  returns or raises; and what the call returns is only b', the xi block and the theta
  block of the internal fit, where b' is the value stored on the instance if there is one
  (as after a fit) and the estimate from the row sums of the new data only if there is
  none.
\<close>

theorem project_leaves_gene_blocks:
  "eta (fst (snd (scHPF_project ext self X vd k g))) = eta self
   \<and> beta (fst (snd (scHPF_project ext self X vd k g))) = beta self
   \<and> (\<forall>b x th. fst (scHPF_project ext self X vd k g) = Inr (b, x, th) \<longrightarrow>
         Num b = (case bp self of Some b0 \<Rightarrow> Num b0
                  | None \<Rightarrow> scaled (ap self) (mean_var_ratio X 1))
         \<and> (\<exists>d e be. fst (scHPF_fit_internal ext self X vd True True True None g)
                        = Inr (b, d, x, e, th, be)))"
proof (intro conjI allI impI)
  show "eta (fst (snd (scHPF_project ext self X vd k g))) = eta self"
    and "beta (fst (snd (scHPF_project ext self X vd k g))) = beta self"
    unfolding project_parts(1) using fit_internal_frozen [of ext self X vd True True None g]
    by simp_all
next
  fix b x th
  assume p: "fst (scHPF_project ext self X vd k g) = Inr (b, x, th)"
  from project_parts(2) [OF p]
  show e: "\<exists>d e be. fst (scHPF_fit_internal ext self X vd True True True None g)
                        = Inr (b, d, x, e, th, be)" .
  then obtain d e be where "fst (scHPF_fit_internal ext self X vd True True True None g)
                        = Inr (b, d, x, e, th, be)" by blast
  from fit_internal_bp [OF this]
  show "Num b = (case bp self of Some b0 \<Rightarrow> Num b0
                 | None \<Rightarrow> scaled (ap self) (mean_var_ratio X 1))"
    by (simp add: resolved_bp_def split: option.split)
qed

theorem project_leaves_gene_blocks_witness:
  "eta (fst (snd (scHPF_project (scored_externals 1) fitted_once two_X None 10 9)))
     = eta fitted_once
   \<and> beta (fst (snd (scHPF_project (scored_externals 1) fitted_once two_X None 10 9)))
     = beta fitted_once
   \<and> projected_bp (fst (scHPF_project (scored_externals 1) fitted_once two_X None 10 9))
     = Some 2"
  using project_leaves_gene_blocks [of "scored_externals 1" fitted_once two_X None 10 9]
  unfolding fitted_once_def fitted_once_value
  by (simp add: setup_eval fit_eval eval_defs)

section \<open>The loss history\<close>

text \<open>
  C3. The code does not do what the claim says: nothing resets the loss history, while
  the percent changes are local to a call. A first fit of one iteration leaves the
  history [1]; a second fit on the same instance, which makes one check, leaves [1, 1],
  whose first entry is the loss of the first fit. The gate of the convergence test counts
  the kept losses as well: after a fit of three iterations, which leaves [1, 1, 1], a
  second fit with a minimum of 0 iterations raises an index error at its first check,
  where the fourth loss point opens the gate and a single percent change exists.
\<close>

theorem refit_keeps_history:
  "fst (scHPF_fit (scored_externals 1) (toy_config 0 1 1 5) toy_X None False True True None 0)
     = None
   \<and> loss fitted_once = [1]
   \<and> max_iter fitted_once = 1
   \<and> fst (scHPF_fit (scored_externals 1) fitted_once toy_X None False True True None 9) = None
   \<and> loss (fst (snd (scHPF_fit (scored_externals 1) fitted_once toy_X None False True True
                        None 9))) = [1, 1]
   \<and> fst (scHPF_fit (scored_externals 1) (toy_config 0 3 1 5) toy_X None False True True None 0)
     = None
   \<and> loss fitted_thrice = [1, 1, 1]
   \<and> min_iter fitted_thrice = 0
   \<and> fst (scHPF_fit (scored_externals 1) fitted_thrice toy_X None False True True None 9)
     = Some IndexError
   \<and> loss (fst (snd (scHPF_fit (scored_externals 1) fitted_thrice toy_X None False True True
                        None 9))) = [1, 1, 1, 1]"
  unfolding fitted_once_def fitted_once_value fitted_thrice_def fitted_thrice_value
  by (simp add: upt_0_3 numeral_3_eq_3 setup_eval fit_eval eval_defs)

text \<open>
  What every call of fit does to the history: the history is empty after construction,
  and the history after a call of fit begins with the whole history from before the
  call; the call appends to it and removes nothing.
\<close>

theorem fit_keeps_loss_history:
  "loss (scHPF_init K a0 ap0 bp0 c0 cp0 dp0 mn mx cf eps n x0 th0 e0 b0 l0) = []
   \<and> length (loss self) \<le> length (loss (fst (snd (scHPF_fit ext self X vd fg reinit vb mi g))))
   \<and> take (length (loss self)) (loss (fst (snd (scHPF_fit ext self X vd fg reinit vb mi g))))
        = loss self"
proof -
  obtain ys where
    "loss (fst (snd (scHPF_fit ext self X vd fg reinit vb mi g))) = loss self @ ys"
    using fit_internal_loss [of ext self X vd fg reinit vb mi g]
    unfolding fit_instance_loss by blast
  then show ?thesis by (simp add: scHPF_init_def)
qed

section \<open>The scorer\<close>

text \<open>
  C6. For a theta and a beta block with \<open>K > 0\<close> factors whose arrays are well formed
  and positive, and observations whose row and column indices lie within the blocks, the
  scorer returns for every observed entry value * log(rate) - rate - logGamma(value + 1),
  where rate is the dot product over the factors of the expectations of the cell loading
  at the entry's row and of the gene loading at its column; the aggregate score is the
  sum of these over all observed entries; and every rate is positive. This holds for the
  numpy expressions of the source, which run when the kernel is unbound, and for the
  kernel as the spec describes it.
\<close>

theorem pointwise_llh_formula:
  assumes th: "nd_shape (vi_shape th) = [n, K]"
      "length (nd_data (vi_shape th)) = n * K" "length (nd_data (vi_rate th)) = n * K"
    and be: "nd_shape (vi_shape be) = [m, K]"
      "length (nd_data (vi_shape be)) = m * K" "length (nd_data (vi_rate be)) = m * K"
    and pos: "all_positive (vi_shape th)" "all_positive (vi_rate th)"
      "all_positive (vi_shape be)" "all_positive (vi_rate be)" "0 < K"
    and len: "length (coo_row X) = length (coo_data X)" "length (coo_col X) = length (coo_data X)"
    and rng: "\<forall>i \<in> set (coo_row X). i < n" "\<forall>j \<in> set (coo_col X). j < m"
    and kern: "compute_pois_llh ext = None
               \<or> compute_pois_llh ext = Some (compute_pois_llh_spec (gammaln ext))"
  shows "pois_llh_pointwise ext self X (Some th) (Some be) =
           Inr (map (\<lambda>q. coo_data X ! q * ln (spec_rate th be K (coo_row X ! q) (coo_col X ! q))
                         - spec_rate th be K (coo_row X ! q) (coo_col X ! q)
                         - gammaln ext (coo_data X ! q + 1))
                  [0..<length (coo_data X)])
       \<and> pois_llh ext self X (Some th) (Some be) =
           Inr (\<Sum>q<length (coo_data X).
                  coo_data X ! q * ln (spec_rate th be K (coo_row X ! q) (coo_col X ! q))
                  - spec_rate th be K (coo_row X ! q) (coo_col X ! q)
                  - gammaln ext (coo_data X ! q + 1))
       \<and> (\<forall>q<length (coo_data X). 0 < spec_rate th be K (coo_row X ! q) (coo_col X ! q))"
proof -
  let ?f = "\<lambda>q. coo_data X ! q * ln (spec_rate th be K (coo_row X ! q) (coo_col X ! q))
                         - spec_rate th be K (coo_row X ! q) (coo_col X ! q)
                         - gammaln ext (coo_data X ! q + 1)"
  let ?N = "length (coo_data X)"
  have pw: "pois_llh_pointwise ext self X (Some th) (Some be) = Inr (map ?f [0..<?N])"
    using kern
  proof
    assume none: "compute_pois_llh ext = None"
    have nr: "nrows (e_x th) = n" "nrows (e_x be) = m"
      using th(1) be(1) by (simp_all add: nrows_def e_x_def nd_div_def)
    have ok: "list_all (\<lambda>i. i < nrows (e_x th)) (coo_row X)"
      "list_all (\<lambda>j. j < nrows (e_x be)) (coo_col X)"
      using rng by (simp_all add: nr list_all_iff)
    have rate: "map2 (\<lambda>i j. sum_list (map2 (*) (nd_row (e_x th) i) (nd_row (e_x be) j)))
                  (coo_row X) (coo_col X)
                = map (\<lambda>q. spec_rate th be K (coo_row X ! q) (coo_col X ! q)) [0..<?N]"
    proof -
      have "map2 (\<lambda>i j. sum_list (map2 (*) (nd_row (e_x th) i) (nd_row (e_x be) j)))
                  (coo_row X) (coo_col X)
            = map (\<lambda>q. sum_list (map2 (*) (nd_row (e_x th) (coo_row X ! q))
                                        (nd_row (e_x be) (coo_col X ! q)))) [0..<?N]"
        using map2_nth [of "coo_row X" "coo_col X"] len by simp
      also have "\<dots> = map (\<lambda>q. spec_rate th be K (coo_row X ! q) (coo_col X ! q)) [0..<?N]"
      proof (rule map_cong [OF refl])
        fix q assume "q \<in> set [0..<?N]"
        then have "coo_row X ! q < n" "coo_col X ! q < m"
          using rng len by simp_all
        then show "sum_list (map2 (*) (nd_row (e_x th) (coo_row X ! q))
                                        (nd_row (e_x be) (coo_col X ! q)))
                   = spec_rate th be K (coo_row X ! q) (coo_col X ! q)"
          by (rule numpy_rate [OF th be])
      qed
      finally show ?thesis .
    qed
    have m: "map2 (\<lambda>x r. x * ln r - r - gammaln ext (x + 1)) (coo_data X)
                (map (\<lambda>q. spec_rate th be K (coo_row X ! q) (coo_col X ! q)) [0..<?N])
             = map ?f [0..<?N]"
      by (rule nth_equalityI) simp_all
    show ?thesis
      using none ok by (simp add: pois_llh_pointwise_def rate m)
  next
    assume some: "compute_pois_llh ext = Some (compute_pois_llh_spec (gammaln ext))"
    have nc: "ncols (vi_shape th) = K" using th(1) by (simp add: ncols_def)
    show ?thesis
      by (simp add: pois_llh_pointwise_def some compute_pois_llh_spec_def nc spec_rate_def
          Let_def)
  qed
  have "sum_list (map ?f [0..<?N]) = (\<Sum>q<?N. ?f q)"
    by (simp add: interv_sum_list_conv_sum_set_nat atLeast0LessThan)
  with pois_llh_of_pointwise [OF pw]
  have ag: "pois_llh ext self X (Some th) (Some be) = Inr (\<Sum>q<?N. ?f q)" by simp
  have ps: "\<forall>q<?N. 0 < spec_rate th be K (coo_row X ! q) (coo_col X ! q)"
  proof (intro allI impI)
    fix q assume "q < ?N"
    then have "coo_row X ! q < n" "coo_col X ! q < m" using rng len by simp_all
    then show "0 < spec_rate th be K (coo_row X ! q) (coo_col X ! q)"
      by (intro spec_rate_pos [OF th be pos]) 
  qed
  from pw ag ps show ?thesis by (intro conjI)
qed

theorem pointwise_llh_formula_witness:
  "pois_llh_pointwise mid_externals (toy_config 0 1 1 5) toy_X (Some (toy_block [2, 1]))
       (Some (toy_block [2, 1]))
     = Inr [ln (1 / 4) - 1 / 4, 3 * ln (1 / 4) - 1 / 4 - ln (fact 3)]
   \<and> pois_llh mid_externals (toy_config 0 1 1 5) toy_X (Some (toy_block [2, 1]))
       (Some (toy_block [2, 1]))
     = Inr (4 * ln (1 / 4) + (- (1 / 2) - ln (fact 3)))"
  using pointwise_llh_formula [of "toy_block [2, 1]" 2 1 "toy_block [2, 1]" 2 toy_X
      mid_externals "toy_config 0 1 1 5"]
  by (simp add: eval_defs all_positive_def spec_rate_def list_all_iff)

end
